theory Spec2Isabelle
  imports Complex_Main
begin

text \<open>
  The resource nodes and the creatures of the survival game: the node life cycle of
  \<open>src/resources.js\<close> (gathering, depletion, respawn, the closest node) and the creature
  system of \<open>src/creatures.js\<close> (spawning, the behaviour state machine, damage, death and
  loot), each as functions on explicit state, followed by the properties proved of them.
\<close>

section \<open>Numbers and vectors\<close>

text \<open>
  JavaScript numbers are idealised as mathematical numbers: \<open>real\<close> for coordinates,
  multipliers, damage and distances, \<open>int\<close> for the health of a resource node (only the
  integers 5, 8, 2, 3 minus 1 or 2 are ever written there) and for the times of \<open>Date.now()\<close>,
  \<open>nat\<close> for the clock of the event loop. Rounding and the infinities are outside the model.
  NaN is outside it too, except in the kinematics of the creatures, where the source itself
  produces it (see \<open>jsnum\<close> below).

  \<open>THREE.Vector3\<close> is the record \<open>vector3\<close>; its \<open>distanceTo\<close> is the Euclidean distance,
  \<open>Math.sqrt(this.distanceToSquared(v))\<close>.
\<close>

record vector3 =
  vx :: real
  vy :: real
  vz :: real

definition distanceToSquared :: "vector3 \<Rightarrow> vector3 \<Rightarrow> real" where
  "distanceToSquared a b =
     (vx a - vx b) * (vx a - vx b) + (vy a - vy b) * (vy a - vy b) + (vz a - vz b) * (vz a - vz b)"

definition distanceTo :: "vector3 \<Rightarrow> vector3 \<Rightarrow> real" where
  "distanceTo a b = sqrt (distanceToSquared a b)"

section \<open>Resource nodes (src/resources.js)\<close>

text \<open>
  A node object of \<open>createResourceNode\<close>. The fields \<open>mesh\<close> and \<open>indicator\<close> hold scene
  objects that only the rendering code reads; they are left out, with the shake, fade and
  particle animations that write them. \<open>respawnTimer\<close> is the handle returned by
  \<open>setTimeout\<close>, kept here as the deadline of the timeout.
\<close>

record resource_node =
  type :: string
  position :: vector3
  health :: int
  maxHealth :: int
  canGather :: bool
  respawnTime :: nat
  respawnTimer :: "nat option"

text \<open>The value \<open>{ type, amount }\<close> returned by a gather.\<close>

record drop =
  drop_type :: string
  drop_amount :: int

text \<open>
  The \<open>ResourceSystem\<close> object together with the part of the JavaScript event loop it uses:
  \<open>clock\<close> is the time in milliseconds and \<open>timeouts\<close> the callbacks registered with
  \<open>setTimeout\<close> that have not run yet, each as its deadline and the index of the node whose
  \<open>respawnNode\<close> it calls. A node reference of the source is an index into
  \<open>resourceNodes\<close>; the array is only ever appended to.
\<close>

record resource_system =
  resourceNodes :: "resource_node list"
  clock :: nat
  timeouts :: "(nat \<times> nat) list"

definition getMaxHealth :: "string \<Rightarrow> int" where
  "getMaxHealth t =
     (if t = ''tree'' then 5
      else if t = ''rock'' then 8
      else if t = ''plant'' then 2
      else 3)"

definition createResourceNode ::
  "string \<Rightarrow> real \<Rightarrow> real \<Rightarrow> real \<Rightarrow> resource_system \<Rightarrow> resource_system" where
  "createResourceNode t x y z s =
     (let node = \<lparr> type = t,
                   position = \<lparr> vx = x, vy = y, vz = z \<rparr>,
                   health = getMaxHealth t,
                   maxHealth = getMaxHealth t,
                   canGather = True,
                   respawnTime = 60000,
                   respawnTimer = None \<rparr>
      in s\<lparr> resourceNodes := resourceNodes s @ [node] \<rparr>)"

definition getResourceDrop :: "string \<Rightarrow> drop option" where
  "getResourceDrop t =
     (if t = ''tree'' then Some \<lparr> drop_type = ''wood'', drop_amount = 1 \<rparr>
      else if t = ''rock'' then Some \<lparr> drop_type = ''stone'', drop_amount = 1 \<rparr>
      else if t = ''plant'' then Some \<lparr> drop_type = ''fiber'', drop_amount = 2 \<rparr>
      else None)"

text \<open>
  \<open>depleteNode\<close>: the node stops being gatherable and a timeout of \<open>respawnTime\<close>
  milliseconds is registered. The health is not written.
\<close>

definition depleteNode :: "nat \<Rightarrow> resource_system \<Rightarrow> resource_system" where
  "depleteNode i s =
     (let node = resourceNodes s ! i;
          deadline = clock s + respawnTime node
      in s\<lparr> resourceNodes :=
               (resourceNodes s)[i := node\<lparr> canGather := False, respawnTimer := Some deadline \<rparr>],
             timeouts := timeouts s @ [(deadline, i)] \<rparr>)"

definition respawnNode :: "nat \<Rightarrow> resource_system \<Rightarrow> resource_system" where
  "respawnNode i s =
     (let node = resourceNodes s ! i
      in s\<lparr> resourceNodes :=
               (resourceNodes s)[i := node\<lparr> health := maxHealth node, canGather := True \<rparr>] \<rparr>)"

text \<open>
  \<open>gatherResource(node, amountMultiplier)\<close>, the node given by its index. The result is the
  returned drop (\<open>None\<close> for \<open>null\<close>) and the system after the call. An index outside the
  array stands for no node of the source and leaves everything as it is.
\<close>

definition gatherResource ::
  "nat \<Rightarrow> real \<Rightarrow> resource_system \<Rightarrow> drop option \<times> resource_system" where
  "gatherResource i amountMultiplier s =
     (if \<not> i < length (resourceNodes s) then (None, s)
      else if \<not> canGather (resourceNodes s ! i) then (None, s)
      else
        let node = resourceNodes s ! i;
            damageDealt = (if amountMultiplier \<ge> 2 then 2 else 1);
            s1 = s\<lparr> resourceNodes :=
                      (resourceNodes s)[i := node\<lparr> health := health node - damageDealt \<rparr>] \<rparr>;
            s2 = (if health (resourceNodes s1 ! i) \<le> 0 then depleteNode i s1 else s1);
            baseDrop = getResourceDrop (type (resourceNodes s2 ! i))
        in (map_option
              (\<lambda>d. d\<lparr> drop_amount := \<lfloor>real_of_int (drop_amount d) * amountMultiplier\<rfloor> \<rparr>)
              baseDrop,
            s2))"

text \<open>
  The event loop runs for \<open>dt\<close> milliseconds: the clock advances and every timeout whose
  deadline has been reached runs its callback, \<open>respawnNode\<close> of its node, in the order of
  registration, and leaves the queue.
\<close>

definition due :: "nat \<Rightarrow> nat \<times> nat \<Rightarrow> bool" where
  "due t e = (fst e \<le> t)"

definition advance :: "nat \<Rightarrow> resource_system \<Rightarrow> resource_system" where
  "advance dt s =
     (let t = clock s + dt;
          fired = filter (due t) (timeouts s);
          pending = filter (\<lambda>e. \<not> due t e) (timeouts s)
      in fold respawnNode (map snd fired) (s\<lparr> clock := t, timeouts := pending \<rparr>))"

text \<open>
  \<open>getClosestNode(position, maxDistance)\<close>: the loop over \<open>resourceNodes\<close> with its two
  variables \<open>closest\<close> and \<open>closestDist\<close>.
\<close>

fun getClosestNode_loop ::
  "vector3 \<Rightarrow> resource_node list \<Rightarrow> resource_node option \<Rightarrow> real \<Rightarrow> resource_node option" where
  "getClosestNode_loop p [] closest closestDist = closest"
| "getClosestNode_loop p (node # nodes) closest closestDist =
     (if \<not> canGather node then getClosestNode_loop p nodes closest closestDist
      else
        let dist = distanceTo p (position node)
        in if dist < closestDist then getClosestNode_loop p nodes (Some node) dist
           else getClosestNode_loop p nodes closest closestDist)"

definition getClosestNode :: "resource_system \<Rightarrow> vector3 \<Rightarrow> real \<Rightarrow> resource_node option" where
  "getClosestNode s p maxDistance = getClosestNode_loop p (resourceNodes s) None maxDistance"

subsection \<open>The life of the node collection\<close>

text \<open>
  What happens to a \<open>ResourceSystem\<close> after its constructor: the world generator creates
  nodes, the player gathers from a node with some multiplier, and time passes, which runs
  the timeouts that fall due. \<open>depleteNode\<close> and \<open>respawnNode\<close> have no other caller than
  \<open>gatherResource\<close> and the timeout.
\<close>

definition newResourceSystem :: "nat \<Rightarrow> resource_system" where
  "newResourceSystem t0 = \<lparr> resourceNodes = [], clock = t0, timeouts = [] \<rparr>"

datatype resource_event =
    Create string real real real
  | Gather nat real
  | Advance nat

fun exec :: "resource_system \<Rightarrow> resource_event \<Rightarrow> resource_system" where
  "exec s (Create t x y z) = createResourceNode t x y z s"
| "exec s (Gather i m) = snd (gatherResource i m s)"
| "exec s (Advance dt) = advance dt s"

definition run :: "resource_event list \<Rightarrow> resource_system \<Rightarrow> resource_system" where
  "run evs s = foldl exec s evs"

fun elapsed :: "resource_event list \<Rightarrow> nat" where
  "elapsed [] = 0"
| "elapsed (Advance dt # evs) = dt + elapsed evs"
| "elapsed (_ # evs) = elapsed evs"

inductive reachable :: "resource_system \<Rightarrow> bool" where
  start: "reachable (newResourceSystem t0)"
| step: "reachable s \<Longrightarrow> reachable (exec s e)"

section \<open>Creatures (src/creatures.js)\<close>

subsection \<open>Numbers that may be NaN\<close>

text \<open>
  \<open>updateFlee\<close> multiplies by \<open>species.fleeSpeed\<close>, which three of the five species do not
  have: the product with \<open>undefined\<close> is NaN, and it spreads from the velocity to the
  position, the distance to the player and the rotation. The coordinates of a creature are
  therefore numbers with NaN. Arithmetic with NaN gives NaN and every comparison with NaN is
  false.
\<close>

datatype jsnum = Num real | NaN

fun jadd :: "jsnum \<Rightarrow> jsnum \<Rightarrow> jsnum" where
  "jadd (Num a) (Num b) = Num (a + b)"
| "jadd _ _ = NaN"

fun jsub :: "jsnum \<Rightarrow> jsnum \<Rightarrow> jsnum" where
  "jsub (Num a) (Num b) = Num (a - b)"
| "jsub _ _ = NaN"

fun jmul :: "jsnum \<Rightarrow> jsnum \<Rightarrow> jsnum" where
  "jmul (Num a) (Num b) = Num (a * b)"
| "jmul _ _ = NaN"

text \<open>The only division, in \<open>normalize\<close>, is by a number that is not 0.\<close>

fun jdiv :: "jsnum \<Rightarrow> jsnum \<Rightarrow> jsnum" where
  "jdiv (Num a) (Num b) = Num (a / b)"
| "jdiv _ _ = NaN"

fun jsqrt :: "jsnum \<Rightarrow> jsnum" where
  "jsqrt (Num a) = Num (sqrt a)"
| "jsqrt NaN = NaN"

fun jlt :: "jsnum \<Rightarrow> jsnum \<Rightarrow> bool" where
  "jlt (Num a) (Num b) = (a < b)"
| "jlt _ _ = False"

fun jgt :: "jsnum \<Rightarrow> jsnum \<Rightarrow> bool" where
  "jgt (Num a) (Num b) = (a > b)"
| "jgt _ _ = False"

text \<open>\<open>Math.atan2\<close>, without the sign of a zero.\<close>

definition atan2 :: "real \<Rightarrow> real \<Rightarrow> real" where
  "atan2 b a =
     (if a > 0 then arctan (b / a)
      else if a < 0 \<and> b \<ge> 0 then arctan (b / a) + pi
      else if a < 0 \<and> b < 0 then arctan (b / a) - pi
      else if b > 0 then pi / 2
      else if b < 0 then - (pi / 2)
      else 0)"

fun jatan2 :: "jsnum \<Rightarrow> jsnum \<Rightarrow> jsnum" where
  "jatan2 (Num b) (Num a) = Num (atan2 b a)"
| "jatan2 _ _ = NaN"

text \<open>A \<open>THREE.Vector3\<close> of such numbers, and the vector methods the creature system calls.\<close>

record jvector3 =
  jx :: jsnum
  jy :: jsnum
  jz :: jsnum

definition jvec :: "vector3 \<Rightarrow> jvector3" where
  "jvec v = \<lparr> jx = Num (vx v), jy = Num (vy v), jz = Num (vz v) \<rparr>"

definition subVectors :: "jvector3 \<Rightarrow> jvector3 \<Rightarrow> jvector3" where
  "subVectors a b = \<lparr> jx = jsub (jx a) (jx b), jy = jsub (jy a) (jy b), jz = jsub (jz a) (jz b) \<rparr>"

definition vlength :: "jvector3 \<Rightarrow> jsnum" where
  "vlength v = jsqrt (jadd (jadd (jmul (jx v) (jx v)) (jmul (jy v) (jy v))) (jmul (jz v) (jz v)))"

text \<open>
  \<open>Vector3.normalize\<close> is \<open>divideScalar(this.length() || 1)\<close>: a length of 0 or NaN is falsy
  and replaced by 1.
\<close>

definition normalize :: "jvector3 \<Rightarrow> jvector3" where
  "normalize v =
     (let l = (if vlength v = Num 0 \<or> vlength v = NaN then Num 1 else vlength v)
      in \<lparr> jx = jdiv (jx v) l, jy = jdiv (jy v) l, jz = jdiv (jz v) l \<rparr>)"

definition multiplyScalar :: "jvector3 \<Rightarrow> jsnum \<Rightarrow> jvector3" where
  "multiplyScalar v k = \<lparr> jx = jmul (jx v) k, jy = jmul (jy v) k, jz = jmul (jz v) k \<rparr>"

text \<open>\<open>a.distanceTo(b)\<close>, the square root of the sum of the squared differences.\<close>

definition jdistanceTo :: "jvector3 \<Rightarrow> jvector3 \<Rightarrow> jsnum" where
  "jdistanceTo a b = vlength (subVectors a b)"

subsection \<open>Species\<close>

text \<open>The strings \<open>"passive"\<close>, \<open>"neutral"\<close> and \<open>"aggressive"\<close> of a species' \<open>behavior\<close>.\<close>

datatype behavior_class = Passive | Neutral | Aggressive

text \<open>An entry \<open>{ type, amount, chance }\<close> of a species' \<open>dropItems\<close>.\<close>

record loot =
  loot_type :: string
  loot_amount :: real
  loot_chance :: real

text \<open>
  A species object of \<open>initializeSpecies\<close>, without \<open>emoji\<close>, \<open>color\<close> and \<open>size\<close>, which only
  the mesh and the console messages use. \<open>fleeSpeed\<close> and \<open>attackCooldown\<close> are missing
  (\<open>undefined\<close>) in some species, hence \<open>None\<close>.
\<close>

record species_data =
  species_id :: string
  species_name :: string
  species_health :: real
  species_maxHealth :: real
  speed :: real
  damage :: real
  attackRange :: real
  detectionRange :: real
  behavior :: behavior_class
  aggroOnHit :: bool
  wanderSpeed :: real
  fleeSpeed :: "real option"
  attackCooldown :: "real option"
  dropItems :: "loot list"
  spawnWeight :: real

definition rabbit :: species_data where
  "rabbit = \<lparr> species_id = ''rabbit'', species_name = ''Rabbit'',
      species_health = 10, species_maxHealth = 10, speed = 8, damage = 0,
      attackRange = 0, detectionRange = 15, behavior = Passive, aggroOnHit = False,
      wanderSpeed = 3, fleeSpeed = Some 10, attackCooldown = None,
      dropItems = [\<lparr> loot_type = ''meat'', loot_amount = 1, loot_chance = 1 \<rparr>],
      spawnWeight = 30 \<rparr>"

definition deer :: species_data where
  "deer = \<lparr> species_id = ''deer'', species_name = ''Deer'',
      species_health = 25, species_maxHealth = 25, speed = 10, damage = 0,
      attackRange = 0, detectionRange = 20, behavior = Passive, aggroOnHit = False,
      wanderSpeed = 4, fleeSpeed = Some 12, attackCooldown = None,
      dropItems = [\<lparr> loot_type = ''meat'', loot_amount = 3, loot_chance = 1 \<rparr>,
                   \<lparr> loot_type = ''hide'', loot_amount = 1, loot_chance = 8 / 10 \<rparr>],
      spawnWeight = 20 \<rparr>"

definition wolf :: species_data where
  "wolf = \<lparr> species_id = ''wolf'', species_name = ''Wolf'',
      species_health = 40, species_maxHealth = 40, speed = 12, damage = 10,
      attackRange = 2, detectionRange = 25, behavior = Aggressive, aggroOnHit = True,
      wanderSpeed = 5, fleeSpeed = None, attackCooldown = Some 1500,
      dropItems = [\<lparr> loot_type = ''meat'', loot_amount = 2, loot_chance = 1 \<rparr>,
                   \<lparr> loot_type = ''fang'', loot_amount = 1, loot_chance = 5 / 10 \<rparr>],
      spawnWeight = 15 \<rparr>"

definition boar :: species_data where
  "boar = \<lparr> species_id = ''boar'', species_name = ''Boar'',
      species_health = 50, species_maxHealth = 50, speed = 9, damage = 8,
      attackRange = 18 / 10, detectionRange = 15, behavior = Neutral, aggroOnHit = True,
      wanderSpeed = 3, fleeSpeed = None, attackCooldown = Some 2000,
      dropItems = [\<lparr> loot_type = ''meat'', loot_amount = 4, loot_chance = 1 \<rparr>,
                   \<lparr> loot_type = ''hide'', loot_amount = 2, loot_chance = 7 / 10 \<rparr>],
      spawnWeight = 18 \<rparr>"

definition bear :: species_data where
  "bear = \<lparr> species_id = ''bear'', species_name = ''Bear'',
      species_health = 100, species_maxHealth = 100, speed = 8, damage = 20,
      attackRange = 25 / 10, detectionRange = 30, behavior = Aggressive, aggroOnHit = True,
      wanderSpeed = 4, fleeSpeed = None, attackCooldown = Some 2500,
      dropItems = [\<lparr> loot_type = ''meat'', loot_amount = 8, loot_chance = 1 \<rparr>,
                   \<lparr> loot_type = ''hide'', loot_amount = 3, loot_chance = 1 \<rparr>,
                   \<lparr> loot_type = ''fang'', loot_amount = 2, loot_chance = 8 / 10 \<rparr>],
      spawnWeight = 8 \<rparr>"

definition initializeSpecies :: "species_data list" where
  "initializeSpecies = [rabbit, deer, wolf, boar, bear]"

subsection \<open>Agents and their surroundings\<close>

text \<open>
  \<open>creature.target\<close> is written but never read. It holds either the \<open>attacker\<close> object that was
  handed to \<open>damageCreature\<close> (objects are named by numbers) or the vector
  \<open>this.player.position\<close>.
\<close>

datatype target_ref = TargetObject nat | TargetPlayerPosition

text \<open>The strings that \<open>creature.state\<close> takes.\<close>

datatype behavior_state = Idle | Wander | Chase | Attack | Flee

text \<open>
  A creature object of \<open>spawnCreature\<close>, without \<open>mesh\<close> and \<open>healthBar\<close>. The fields that share
  a name with a field of a resource node carry the prefix \<open>creature_\<close>.
\<close>

record creature =
  creature_id :: real
  species :: string
  speciesData :: species_data
  creature_position :: jvector3
  velocity :: jvector3
  rotation :: jsnum
  creature_health :: real
  creature_maxHealth :: real
  isDead :: bool
  state :: behavior_state
  target :: "target_ref option"
  lastAttackTime :: int
  stateTimer :: real
  wanderTarget :: "jvector3 option"

text \<open>A call \<open>createGroundItem(type, amount, x, z)\<close> on the inventory.\<close>

record ground_item =
  item_type :: string
  item_amount :: real
  item_x :: jsnum
  item_z :: jsnum

text \<open>
  What a \<open>CreatureSystem\<close> reads and writes outside its creature objects: the position of the
  player, the terrain's \<open>getHeightAt\<close>, the clock \<open>Date.now()\<close>, the values that
  \<open>Math.random()\<close> returns, in order, with the number of them already drawn, whether
  \<open>window.game.inventory\<close> exists, the ground items created so far, the calls of
  \<open>performAttack\<close> so far (newest first, each with the time of the tick that made it and the
  damage handed to \<open>takeDamage\<close>), and the creatures whose fade-out animation has been started.
\<close>

record world =
  player_position :: vector3
  getHeightAt :: "jsnum \<Rightarrow> jsnum \<Rightarrow> jsnum"
  dateNow :: int
  randoms :: "nat \<Rightarrow> real"
  drawn :: nat
  inventoryPresent :: bool
  groundItems :: "ground_item list"
  attackLog :: "(int \<times> real) list"
  fadeOuts :: "real list"

definition mathRandom :: "world \<Rightarrow> real \<times> world" where
  "mathRandom w = (randoms w (drawn w), w\<lparr> drawn := Suc (drawn w) \<rparr>)"

subsection \<open>Spawning\<close>

definition maxCreatures :: nat where
  "maxCreatures = 15"

definition spawnRadius :: real where
  "spawnRadius = 80"

text \<open>
  \<open>findSpawnPosition\<close>: the loop \<open>for (attempts = 0; attempts < 20; attempts++)\<close>, by the
  number of attempts left. Each attempt draws the angle and then the distance.
\<close>

fun findSpawnPosition_loop :: "nat \<Rightarrow> world \<Rightarrow> jvector3 option \<times> world" where
  "findSpawnPosition_loop 0 w = (None, w)"
| "findSpawnPosition_loop (Suc k) w =
     (let (r1, w1) = mathRandom w;
          angle = r1 * pi * 2;
          (r2, w2) = mathRandom w1;
          distance = 20 + r2 * spawnRadius;
          x = cos angle * distance;
          z = sin angle * distance;
          height = getHeightAt w2 (Num x) (Num z)
      in if jgt height (Num (- 1)) \<and> jlt height (Num 15)
         then (Some \<lparr> jx = Num x, jy = height, jz = Num z \<rparr>, w2)
         else findSpawnPosition_loop k w2)"

definition findSpawnPosition :: "world \<Rightarrow> jvector3 option \<times> world" where
  "findSpawnPosition w = findSpawnPosition_loop 20 w"

text \<open>
  \<open>spawnCreature\<close> returns the new creature object; the caller's array receives it in
  \<open>spawnRandomCreature\<close> below. The object literal draws the random part of \<open>id\<close> first and the
  \<open>rotation\<close> second.
\<close>

definition spawnCreature :: "species_data \<Rightarrow> jvector3 \<Rightarrow> world \<Rightarrow> creature \<times> world" where
  "spawnCreature sp pos w =
     (let (r1, w1) = mathRandom w;
          (r2, w2) = mathRandom w1
      in (\<lparr> creature_id = real_of_int (dateNow w) + r1,
            species = species_id sp,
            speciesData = sp,
            creature_position = pos,
            velocity = \<lparr> jx = Num 0, jy = Num 0, jz = Num 0 \<rparr>,
            rotation = Num (r2 * pi * 2),
            creature_health = species_health sp,
            creature_maxHealth = species_maxHealth sp,
            isDead = False,
            state = Idle,
            target = None,
            lastAttackTime = 0,
            stateTimer = 0,
            wanderTarget = None \<rparr>, w2))"

text \<open>The weighted draw of \<open>spawnRandomCreature\<close>: the loop with its \<open>break\<close>.\<close>

fun selectSpecies_loop :: "real \<Rightarrow> species_data list \<Rightarrow> species_data \<Rightarrow> species_data" where
  "selectSpecies_loop random [] selectedSpecies = selectedSpecies"
| "selectSpecies_loop random (sp # sps) selectedSpecies =
     (let random' = random - spawnWeight sp
      in if random' \<le> 0 then sp else selectSpecies_loop random' sps selectedSpecies)"

definition totalWeight :: real where
  "totalWeight = foldl (\<lambda>sum sp. sum + spawnWeight sp) 0 initializeSpecies"

text \<open>
  The \<open>CreatureSystem\<close> object: its creature array and its surroundings. A creature reference
  of the source is an index into \<open>creatures\<close>.
\<close>

record creature_system =
  creatures :: "creature list"
  env :: world

definition spawnRandomCreature :: "creature_system \<Rightarrow> creature_system" where
  "spawnRandomCreature s =
     (let (r, w1) = mathRandom (env s);
          random = r * totalWeight;
          selectedSpecies = selectSpecies_loop random initializeSpecies (initializeSpecies ! 0);
          (spawnPos, w2) = findSpawnPosition w1
      in case spawnPos of
           None \<Rightarrow> s\<lparr> env := w2 \<rparr>
         | Some pos \<Rightarrow>
             (let (c, w3) = spawnCreature selectedSpecies pos w2
              in \<lparr> creatures = creatures s @ [c], env = w3 \<rparr>))"

text \<open>The constructor: \<open>spawnInitialCreatures\<close> calls \<open>spawnRandomCreature\<close> \<open>maxCreatures\<close> times.\<close>

definition newCreatureSystem :: "world \<Rightarrow> creature_system" where
  "newCreatureSystem w = (spawnRandomCreature ^^ maxCreatures) \<lparr> creatures = [], env = w \<rparr>"

subsection \<open>Damage, death and loot\<close>

text \<open>
  \<open>dropLoot\<close>: one random draw for each entry of the drop table, and a ground item for each
  draw below the entry's chance if there is an inventory. Registering an unknown item type
  with the inventory is left out.
\<close>

fun dropLoot_loop :: "creature \<Rightarrow> loot list \<Rightarrow> world \<Rightarrow> world" where
  "dropLoot_loop c [] w = w"
| "dropLoot_loop c (d # ds) w =
     (let (r, w1) = mathRandom w;
          w2 = (if r < loot_chance d
                then if inventoryPresent w1
                     then w1\<lparr> groundItems := groundItems w1 @
                            [\<lparr> item_type = loot_type d, item_amount = loot_amount d,
                               item_x = jx (creature_position c),
                               item_z = jz (creature_position c) \<rparr>] \<rparr>
                     else w1
                else w1)
      in dropLoot_loop c ds w2)"

definition dropLoot :: "creature \<Rightarrow> world \<Rightarrow> world" where
  "dropLoot c w = dropLoot_loop c (dropItems (speciesData c)) w"

text \<open>
  \<open>killCreature\<close>. A spawned creature always has a mesh, so the fade-out animation starts;
  when it ends, the creature leaves the array (\<open>removeCreature\<close> below).
\<close>

definition killCreature :: "creature \<Rightarrow> world \<Rightarrow> creature \<times> world" where
  "killCreature c w =
     (let c1 = c\<lparr> isDead := True, creature_health := 0 \<rparr>;
          w1 = dropLoot c1 w
      in (c1, w1\<lparr> fadeOuts := fadeOuts w1 @ [creature_id c1] \<rparr>))"

text \<open>
  \<open>damageCreature(creature, damage, attacker)\<close>, without the health bar and the console
  message. \<open>attacker || this.player.position\<close> is the attacker object if there is one.
\<close>

definition damageCreature ::
  "creature \<Rightarrow> real \<Rightarrow> nat option \<Rightarrow> world \<Rightarrow> creature \<times> world" where
  "damageCreature c dmg attacker w =
     (if isDead c then (c, w)
      else
        let c1 = c\<lparr> creature_health := creature_health c - dmg \<rparr>;
            c2 = (if behavior (speciesData c1) = Passive
                     \<or> (behavior (speciesData c1) = Neutral \<and> aggroOnHit (speciesData c1))
                  then c1\<lparr> state := Flee, stateTimer := 5000 \<rparr>
                  else if behavior (speciesData c1) = Neutral
                          \<or> behavior (speciesData c1) = Aggressive
                  then c1\<lparr> state := Chase,
                           target := Some (case attacker of
                                             Some a \<Rightarrow> TargetObject a
                                           | None \<Rightarrow> TargetPlayerPosition) \<rparr>
                  else c1)
        in if creature_health c2 \<le> 0 then killCreature c2 w else (c2, w))"

subsection \<open>The state machine\<close>

definition updateIdle :: "creature \<Rightarrow> jsnum \<Rightarrow> world \<Rightarrow> creature \<times> world" where
  "updateIdle c distanceToPlayer w =
     (if behavior (speciesData c) = Aggressive
         \<and> jlt distanceToPlayer (Num (detectionRange (speciesData c)))
      then (c\<lparr> state := Chase, target := Some TargetPlayerPosition \<rparr>, w)
      else
        let (r, w1) = mathRandom w
        in if r < 1 / 100
           then (let (r2, w2) = mathRandom w1
                 in (c\<lparr> state := Wander, stateTimer := 3000 + r2 * 5000 \<rparr>, w2))
           else (c, w1))"

text \<open>
  In \<open>updateWander\<close> the test \<open>!creature.wanderTarget || Math.random() < 0.02\<close> draws only when
  there is a wander target.
\<close>

definition updateWander :: "creature \<Rightarrow> jsnum \<Rightarrow> world \<Rightarrow> creature \<times> world" where
  "updateWander c distanceToPlayer w =
     (if behavior (speciesData c) = Aggressive
         \<and> jlt distanceToPlayer (Num (detectionRange (speciesData c)))
      then (c\<lparr> state := Chase, target := Some TargetPlayerPosition \<rparr>, w)
      else
        let (pick, w1) = (case wanderTarget c of
                            None \<Rightarrow> (True, w)
                          | Some _ \<Rightarrow> (let (r, w') = mathRandom w in (r < 2 / 100, w')));
            (c1, w2) = (if pick
                        then (let (r1, wa) = mathRandom w1;
                                  angle = r1 * pi * 2;
                                  (r2, wb) = mathRandom wa;
                                  distance = 5 + r2 * 10
                              in (c\<lparr> wanderTarget := Some
                                      \<lparr> jx = jadd (jx (creature_position c)) (Num (cos angle * distance)),
                                        jy = Num 0,
                                        jz = jadd (jz (creature_position c)) (Num (sin angle * distance)) \<rparr> \<rparr>,
                                  wb))
                        else (c, w1))
        in case wanderTarget c1 of
             None \<Rightarrow> (c1, w2)
           | Some wt \<Rightarrow>
               (let direction = normalize (subVectors wt (creature_position c1))
                in (c1\<lparr> velocity := (velocity c1)
                            \<lparr> jx := jmul (jx direction) (Num (wanderSpeed (speciesData c1))),
                              jz := jmul (jz direction) (Num (wanderSpeed (speciesData c1))) \<rparr>,
                         rotation := jatan2 (jx direction) (jz direction) \<rparr>, w2)))"

definition updateChase :: "creature \<Rightarrow> jsnum \<Rightarrow> world \<Rightarrow> creature \<times> world" where
  "updateChase c distanceToPlayer w =
     (if jlt distanceToPlayer (Num (attackRange (speciesData c)))
      then (c\<lparr> state := Attack \<rparr>, w)
      else if jgt distanceToPlayer (Num (detectionRange (speciesData c) * (15 / 10)))
      then (c\<lparr> state := Idle, target := None \<rparr>, w)
      else
        let direction = normalize (subVectors (jvec (player_position w)) (creature_position c))
        in (c\<lparr> velocity := (velocity c)
                   \<lparr> jx := jmul (jx direction) (Num (speed (speciesData c))),
                     jz := jmul (jz direction) (Num (speed (speciesData c))) \<rparr>,
                rotation := jatan2 (jx direction) (jz direction) \<rparr>, w))"

text \<open>
  \<open>performAttack\<close>: the call is recorded with the time of the tick and the damage of the
  species; the flash of the mesh is left out.
\<close>

definition performAttack :: "creature \<Rightarrow> world \<Rightarrow> world" where
  "performAttack c w = w\<lparr> attackLog := (dateNow w, damage (speciesData c)) # attackLog w \<rparr>"

text \<open>
  In \<open>updateAttack\<close> the comparison \<open>now - creature.lastAttackTime > species.attackCooldown\<close>
  is false where the species has no \<open>attackCooldown\<close>.
\<close>

definition updateAttack :: "creature \<Rightarrow> jsnum \<Rightarrow> world \<Rightarrow> creature \<times> world" where
  "updateAttack c distanceToPlayer w =
     (let now = dateNow w
      in if jgt distanceToPlayer (Num (attackRange (speciesData c) * (12 / 10)))
         then (c\<lparr> state := Chase \<rparr>, w)
         else
           let direction = normalize (subVectors (jvec (player_position w)) (creature_position c));
               c1 = c\<lparr> velocity := (velocity c)\<lparr> jx := Num 0, jz := Num 0 \<rparr>,
                      rotation := jatan2 (jx direction) (jz direction) \<rparr>
           in if (case attackCooldown (speciesData c1) of
                    None \<Rightarrow> False
                  | Some cd \<Rightarrow> real_of_int (now - lastAttackTime c1) > cd)
              then (c1\<lparr> lastAttackTime := now \<rparr>, performAttack c1 w)
              else (c1, w))"

text \<open>
  \<open>updateFlee\<close>. Where the species has no \<open>fleeSpeed\<close>, the factor \<open>undefined\<close> makes both
  velocity components NaN.
\<close>

definition updateFlee :: "creature \<Rightarrow> jsnum \<Rightarrow> world \<Rightarrow> creature \<times> world" where
  "updateFlee c distanceToPlayer w =
     (let direction = normalize (subVectors (creature_position c) (jvec (player_position w)));
          fs = (case fleeSpeed (speciesData c) of Some f \<Rightarrow> Num f | None \<Rightarrow> NaN)
      in (c\<lparr> velocity := (velocity c)\<lparr> jx := jmul (jx direction) fs, jz := jmul (jz direction) fs \<rparr>,
             rotation := jatan2 (jx direction) (jz direction) \<rparr>, w))"

definition applyMovement :: "creature \<Rightarrow> real \<Rightarrow> world \<Rightarrow> creature" where
  "applyMovement c deltaTime w =
     (let x = jadd (jx (creature_position c)) (jmul (jx (velocity c)) (Num deltaTime));
          z = jadd (jz (creature_position c)) (jmul (jz (velocity c)) (Num deltaTime));
          terrainHeight = getHeightAt w x z
      in c\<lparr> creature_position := \<lparr> jx = x, jy = terrainHeight, jz = z \<rparr>,
            velocity := multiplyScalar (velocity c) (Num (9 / 10)) \<rparr>)"

text \<open>
  \<open>updateCreature\<close>: the state timer, the distance to the player, the handler of the state,
  the movement. Copying position and rotation to the mesh is left out.
\<close>

definition updateTimer :: "creature \<Rightarrow> real \<Rightarrow> creature" where
  "updateTimer c deltaTime =
     (if stateTimer c > 0
      then (let c1 = c\<lparr> stateTimer := stateTimer c - deltaTime * 1000 \<rparr>
            in if stateTimer c1 \<le> 0 then c1\<lparr> state := Idle \<rparr> else c1)
      else c)"

definition updateCreature :: "creature \<Rightarrow> real \<Rightarrow> world \<Rightarrow> creature \<times> world" where
  "updateCreature c deltaTime w =
     (let c1 = updateTimer c deltaTime;
          distanceToPlayer = jdistanceTo (creature_position c1) (jvec (player_position w));
          (c2, w2) = (case state c1 of
                        Idle \<Rightarrow> updateIdle c1 distanceToPlayer w
                      | Wander \<Rightarrow> updateWander c1 distanceToPlayer w
                      | Chase \<Rightarrow> updateChase c1 distanceToPlayer w
                      | Attack \<Rightarrow> updateAttack c1 distanceToPlayer w
                      | Flee \<Rightarrow> updateFlee c1 distanceToPlayer w)
      in (applyMovement c2 deltaTime w2, w2))"

text \<open>\<open>update(deltaTime)\<close>: the loop over the creature array, dead creatures skipped.\<close>

fun update_loop :: "real \<Rightarrow> creature list \<Rightarrow> world \<Rightarrow> creature list \<times> world" where
  "update_loop deltaTime [] w = ([], w)"
| "update_loop deltaTime (c # cs) w =
     (if isDead c
      then (let (cs', w') = update_loop deltaTime cs w in (c # cs', w'))
      else (let (c', w1) = updateCreature c deltaTime w;
                (cs', w') = update_loop deltaTime cs w1
            in (c' # cs', w')))"

definition update :: "real \<Rightarrow> creature_system \<Rightarrow> creature_system" where
  "update deltaTime s =
     (let (cs, w) = update_loop deltaTime (creatures s) (env s)
      in \<lparr> creatures = cs, env = w \<rparr>)"

fun getClosestCreature_loop ::
  "vector3 \<Rightarrow> creature list \<Rightarrow> creature option \<Rightarrow> jsnum \<Rightarrow> creature option" where
  "getClosestCreature_loop p [] closest closestDist = closest"
| "getClosestCreature_loop p (c # cs) closest closestDist =
     (if isDead c then getClosestCreature_loop p cs closest closestDist
      else
        let dist = jdistanceTo (jvec p) (creature_position c)
        in if jlt dist closestDist then getClosestCreature_loop p cs (Some c) dist
           else getClosestCreature_loop p cs closest closestDist)"

definition getClosestCreature :: "creature_system \<Rightarrow> vector3 \<Rightarrow> real \<Rightarrow> creature option" where
  "getClosestCreature s p maxDistance =
     getClosestCreature_loop p (creatures s) None (Num maxDistance)"

subsection \<open>The life of the creature collection\<close>

text \<open>
  \<open>damageCreature\<close> on the creature at an index of the array, as the player's attack calls it
  with the result of \<open>getClosestCreature\<close>.
\<close>

definition damageAt :: "nat \<Rightarrow> real \<Rightarrow> nat option \<Rightarrow> creature_system \<Rightarrow> creature_system" where
  "damageAt i dmg attacker s =
     (let (c, w) = damageCreature (creatures s ! i) dmg attacker (env s)
      in \<lparr> creatures = (creatures s)[i := c], env = w \<rparr>)"

text \<open>The end of a fade-out: \<open>this.creatures.splice(index, 1)\<close>.\<close>

definition removeCreature :: "nat \<Rightarrow> creature_system \<Rightarrow> creature_system" where
  "removeCreature i s = s\<lparr> creatures := take i (creatures s) @ drop (Suc i) (creatures s) \<rparr>"

text \<open>
  The states of a \<open>CreatureSystem\<close>: after the constructor, a frame calls \<open>update\<close>, the player
  hits a creature, the fade-out of a dead creature ends, the timeout set at that moment
  spawns a replacement, and the player and the clock move.
\<close>

inductive reachable_creatures :: "creature_system \<Rightarrow> bool" where
  constructed: "reachable_creatures (newCreatureSystem w)"
| frame: "reachable_creatures s \<Longrightarrow> reachable_creatures (update deltaTime s)"
| hit: "reachable_creatures s \<Longrightarrow> i < length (creatures s) \<Longrightarrow>
        reachable_creatures (damageAt i dmg attacker s)"
| faded: "reachable_creatures s \<Longrightarrow> i < length (creatures s) \<Longrightarrow> isDead (creatures s ! i) \<Longrightarrow>
          reachable_creatures (removeCreature i s)"
| replaced: "reachable_creatures s \<Longrightarrow> reachable_creatures (spawnRandomCreature s)"
| moved: "reachable_creatures s \<Longrightarrow>
          reachable_creatures (s\<lparr> env := (env s)\<lparr> player_position := p, dateNow := t \<rparr> \<rparr>)"

text \<open>
  The life of one agent, with the surroundings it shares: a frame updates it unless it is
  dead, the player hits it, the player moves, the clock changes, other code draws random
  numbers.
\<close>

datatype agent_event =
    AgentTick real
  | AgentHit real "nat option"
  | PlayerAt vector3
  | ClockAt int
  | OtherDraws nat

fun agent_step :: "creature \<times> world \<Rightarrow> agent_event \<Rightarrow> creature \<times> world" where
  "agent_step (c, w) (AgentTick deltaTime) =
     (if isDead c then (c, w) else updateCreature c deltaTime w)"
| "agent_step (c, w) (AgentHit dmg attacker) = damageCreature c dmg attacker w"
| "agent_step (c, w) (PlayerAt p) = (c, w\<lparr> player_position := p \<rparr>)"
| "agent_step (c, w) (ClockAt t) = (c, w\<lparr> dateNow := t \<rparr>)"
| "agent_step (c, w) (OtherDraws k) = (c, w\<lparr> drawn := drawn w + k \<rparr>)"

definition agent_run :: "creature \<times> world \<Rightarrow> agent_event list \<Rightarrow> creature \<times> world" where
  "agent_run cw evs = foldl agent_step cw evs"

text \<open>
  A list of times, newest first, in which each time is more than \<open>cd\<close> milliseconds after
  the one before it.
\<close>

fun spaced :: "real \<Rightarrow> int list \<Rightarrow> bool" where
  "spaced cd (t2 # t1 # ts) = (real_of_int (t2 - t1) > cd \<and> spaced cd (t1 # ts))"
| "spaced cd ts = True"

text \<open>
  The \<open>k\<close>-th point that \<open>findSpawnPosition\<close> samples from the world \<open>w\<close> it starts in, and
  the band of terrain heights it accepts.
\<close>

definition spawnSample :: "world \<Rightarrow> nat \<Rightarrow> jvector3" where
  "spawnSample w k =
     (let angle = randoms w (drawn w + 2 * k) * pi * 2;
          distance = 20 + randoms w (drawn w + 2 * k + 1) * spawnRadius;
          x = cos angle * distance;
          z = sin angle * distance
      in \<lparr> jx = Num x, jy = getHeightAt w (Num x) (Num z), jz = Num z \<rparr>)"

definition validLand :: "jsnum \<Rightarrow> bool" where
  "validLand height \<longleftrightarrow> jgt height (Num (- 1)) \<and> jlt height (Num 15)"

subsection \<open>Invariants of the node collection\<close>

definition node_ok :: "resource_node \<Rightarrow> bool" where
  "node_ok n \<longleftrightarrow> 0 < maxHealth n \<and> - 1 \<le> health n \<and> health n \<le> maxHealth n
      \<and> (canGather n \<longleftrightarrow> 0 < health n) \<and> respawnTime n = 60000"

definition system_ok :: "resource_system \<Rightarrow> bool" where
  "system_ok s \<longleftrightarrow>
     (\<forall>n\<in>set (resourceNodes s). node_ok n)
     \<and> (\<forall>e\<in>set (timeouts s). snd e < length (resourceNodes s)
            \<and> \<not> canGather (resourceNodes s ! snd e) \<and> clock s < fst e)
     \<and> distinct (map snd (timeouts s))"

text \<open>
  Node \<open>i\<close> is depleted, as the node \<open>n0\<close>, and the timeout that respawns it at time \<open>D\<close> is
  pending.
\<close>

definition waiting :: "nat \<Rightarrow> nat \<Rightarrow> resource_node \<Rightarrow> resource_system \<Rightarrow> bool" where
  "waiting i D n0 s \<longleftrightarrow>
     system_ok s \<and> i < length (resourceNodes s) \<and> resourceNodes s ! i = n0
     \<and> \<not> canGather n0 \<and> (D, i) \<in> set (timeouts s)"

subsection \<open>A flat world\<close>

text \<open>
  Surroundings for worked examples: flat terrain at height 0, the player at the origin,
  every random draw \<open>1/2\<close>, an inventory present.
\<close>

definition flatWorld :: world where
  "flatWorld = \<lparr> player_position = \<lparr> vx = 0, vy = 0, vz = 0 \<rparr>,
      getHeightAt = (\<lambda>x z. Num 0),
      dateNow = 0,
      randoms = (\<lambda>k. 1 / 2),
      drawn = 0,
      inventoryPresent = True,
      groundItems = [],
      attackLog = [],
      fadeOuts = [] \<rparr>"

text \<open>A creature of the given species and state on the x axis, as \<open>spawnCreature\<close> makes it.\<close>

definition exampleCreature :: "species_data \<Rightarrow> behavior_state \<Rightarrow> real \<Rightarrow> creature" where
  "exampleCreature sp st x =
     (fst (spawnCreature sp \<lparr> jx = Num x, jy = Num 0, jz = Num 0 \<rparr> flatWorld))\<lparr> state := st \<rparr>"

text \<open>
  The flat world with other random draws: the first is 0 and all later ones are \<open>9/10\<close>.
\<close>

definition farSpawnWorld :: world where
  "farSpawnWorld = flatWorld\<lparr> randoms := (\<lambda>k. if k = 0 then 0 else 9 / 10) \<rparr>"

subsection \<open>Invariants of the creature collection\<close>

text \<open>A dead creature has no health left.\<close>

definition dead_ok :: "creature \<Rightarrow> bool" where
  "dead_ok c \<longleftrightarrow> (isDead c \<longrightarrow> creature_health c = 0)"

text \<open>
  The recorded attacks of an agent are spaced by its cooldown (an agent without a cooldown
  has none), and the newest of them is the agent's \<open>lastAttackTime\<close>.
\<close>

definition cadence_ok :: "creature \<Rightarrow> world \<Rightarrow> bool" where
  "cadence_ok c w \<longleftrightarrow>
     (case attackCooldown (speciesData c) of
        None \<Rightarrow> attackLog w = []
      | Some cd \<Rightarrow> spaced cd (map fst (attackLog w)))
     \<and> (case attackLog w of [] \<Rightarrow> True | e # _ \<Rightarrow> lastAttackTime c = fst e)"


section \<open>Properties of the resource nodes\<close>

subsection \<open>Auxiliary facts\<close>

lemma distanceTo_along_x:
  "distanceTo \<lparr> vx = a, vy = b, vz = c \<rparr> \<lparr> vx = a', vy = b, vz = c \<rparr> = \<bar>a - a'\<bar>"
  by (simp add: distanceTo_def distanceToSquared_def)

lemma getClosestNode_loop_result:
  "(getClosestNode_loop p ns c d = c \<and> (\<forall>m\<in>set ns. canGather m \<longrightarrow> d \<le> distanceTo p (position m)))
   \<or> (\<exists>n\<in>set ns. getClosestNode_loop p ns c d = Some n \<and> canGather n
          \<and> distanceTo p (position n) < d
          \<and> (\<forall>m\<in>set ns. canGather m \<longrightarrow> distanceTo p (position n) \<le> distanceTo p (position m)))"
  (is "?keep ns c d \<or> ?found ns c d")
proof (induction ns arbitrary: c d)
  case Nil
  then show ?case by simp
next
  case (Cons node ns)
  show ?case
  proof (cases "canGather node \<and> distanceTo p (position node) < d")
    case True
    let ?e = "distanceTo p (position node)"
    have step: "getClosestNode_loop p (node # ns) c d = getClosestNode_loop p ns (Some node) ?e"
      using True by (simp add: Let_def)
    from Cons.IH [of "Some node" ?e] consider
      (keep) "?keep ns (Some node) ?e" | (found) "?found ns (Some node) ?e" by blast
    then have "?found (node # ns) c d"
    proof cases
      case keep
      with True step show ?thesis by auto
    next
      case found
      then obtain n where n: "n \<in> set ns" "getClosestNode_loop p ns (Some node) ?e = Some n"
        "canGather n" "distanceTo p (position n) < ?e"
        "\<forall>m\<in>set ns. canGather m \<longrightarrow> distanceTo p (position n) \<le> distanceTo p (position m)"
        by blast
      have "distanceTo p (position n) < d" using n(4) True by linarith
      moreover have "distanceTo p (position n) \<le> ?e" using n(4) by linarith
      ultimately show ?thesis using n step by auto
    qed
    then show ?thesis ..
  next
    case False
    have step: "getClosestNode_loop p (node # ns) c d = getClosestNode_loop p ns c d"
      using False by (auto simp: Let_def)
    have here: "canGather node \<longrightarrow> d \<le> distanceTo p (position node)"
      using False by auto
    from Cons.IH [of c d] consider
      (keep) "?keep ns c d" | (found) "?found ns c d" by blast
    then show ?thesis
    proof cases
      case keep
      with step here have "?keep (node # ns) c d" by auto
      then show ?thesis ..
    next
      case found
      then obtain n where n: "n \<in> set ns" "getClosestNode_loop p ns c d = Some n"
        "canGather n" "distanceTo p (position n) < d"
        "\<forall>m\<in>set ns. canGather m \<longrightarrow> distanceTo p (position n) \<le> distanceTo p (position m)"
        by blast
      have "canGather node \<longrightarrow> distanceTo p (position n) \<le> distanceTo p (position node)"
        using here n(4) by auto
      with n step have "?found (node # ns) c d" by auto
      then show ?thesis ..
    qed
  qed
qed

lemma getMaxHealth_pos: "0 < getMaxHealth t"
  by (simp add: getMaxHealth_def)

lemma respawn_all_length [simp]:
  "length (resourceNodes (fold respawnNode js s)) = length (resourceNodes s)"
  by (induction js arbitrary: s) (simp_all add: respawnNode_def Let_def)

lemma respawn_all_clock [simp]: "clock (fold respawnNode js s) = clock s"
  by (induction js arbitrary: s) (simp_all add: respawnNode_def Let_def)

lemma respawn_all_timeouts [simp]: "timeouts (fold respawnNode js s) = timeouts s"
  by (induction js arbitrary: s) (simp_all add: respawnNode_def Let_def)

lemma respawn_all_nth:
  "j < length (resourceNodes s) \<Longrightarrow>
   resourceNodes (fold respawnNode js s) ! j =
     (if j \<in> set js
      then (resourceNodes s ! j)\<lparr> health := maxHealth (resourceNodes s ! j), canGather := True \<rparr>
      else resourceNodes s ! j)"
proof (induction js arbitrary: s)
  case Nil
  then show ?case by simp
next
  case (Cons k js)
  let ?s' = "respawnNode k s"
  have len: "j < length (resourceNodes ?s')"
    using Cons.prems by (simp add: respawnNode_def Let_def)
  have nth: "resourceNodes ?s' ! j =
      (if j = k then (resourceNodes s ! j)\<lparr> health := maxHealth (resourceNodes s ! j), canGather := True \<rparr>
       else resourceNodes s ! j)"
    using Cons.prems by (simp add: respawnNode_def Let_def nth_list_update)
  show ?case
    using Cons.IH [OF len] nth by auto
qed

lemma system_ok_start: "system_ok (newResourceSystem t0)"
  by (simp add: system_ok_def newResourceSystem_def)

lemma system_ok_create:
  assumes "system_ok s"
  shows "system_ok (createResourceNode t x y z s)"
  using assms getMaxHealth_pos [of t]
  by (auto simp: system_ok_def createResourceNode_def Let_def node_ok_def nth_append)

lemma system_ok_gather:
  assumes ok: "system_ok s"
  shows "system_ok (snd (gatherResource i m s))"
proof (cases "i < length (resourceNodes s) \<and> canGather (resourceNodes s ! i)")
  case False
  then show ?thesis using ok by (auto simp: gatherResource_def)
next
  case True
  let ?n = "resourceNodes s ! i"
  let ?d = "if m \<ge> 2 then 2 else (1::int)"
  from True have i: "i < length (resourceNodes s)" and g: "canGather ?n" by auto
  from ok i have n_ok: "node_ok ?n" by (simp add: system_ok_def)
  have no_timeout: "i \<notin> snd ` set (timeouts s)"
    using ok g by (auto simp: system_ok_def)
  have others: "\<forall>e\<in>set (timeouts s). snd e \<noteq> i"
    using no_timeout by auto
  show ?thesis
  proof (cases "health ?n - ?d \<le> 0")
    case True
    have eq: "snd (gatherResource i m s) =
        s\<lparr> resourceNodes := (resourceNodes s)[i := ?n\<lparr> health := health ?n - ?d, canGather := False,
                 respawnTimer := Some (clock s + respawnTime ?n) \<rparr>],
           timeouts := timeouts s @ [(clock s + respawnTime ?n, i)] \<rparr>"
      using i g True by (simp add: gatherResource_def depleteNode_def Let_def)
    have new_ok: "node_ok (?n\<lparr> health := health ?n - ?d, canGather := False,
                 respawnTimer := Some (clock s + respawnTime ?n) \<rparr>)"
      using n_ok g True by (auto simp: node_ok_def)
    have rt: "respawnTime ?n = 60000" using n_ok by (simp add: node_ok_def)
    show ?thesis
      unfolding eq system_ok_def
      using ok i new_ok others no_timeout rt
      by (auto simp: system_ok_def nth_list_update dest!: set_update_subset_insert [THEN subsetD])
  next
    case False
    have eq: "snd (gatherResource i m s) =
        s\<lparr> resourceNodes := (resourceNodes s)[i := ?n\<lparr> health := health ?n - ?d \<rparr>] \<rparr>"
      using i g False by (simp add: gatherResource_def depleteNode_def Let_def)
    have new_ok: "node_ok (?n\<lparr> health := health ?n - ?d \<rparr>)"
      using n_ok g False by (auto simp: node_ok_def)
    show ?thesis
      unfolding eq system_ok_def
      using ok i new_ok others
      by (auto simp: system_ok_def nth_list_update dest!: set_update_subset_insert [THEN subsetD])
  qed
qed

lemma system_ok_advance:
  assumes ok: "system_ok s"
  shows "system_ok (advance dt s)"
proof -
  let ?t = "clock s + dt"
  let ?F = "filter (due ?t) (timeouts s)"
  let ?P = "filter (\<lambda>e. \<not> due ?t e) (timeouts s)"
  let ?s0 = "s\<lparr> clock := ?t, timeouts := ?P \<rparr>"
  let ?s' = "fold respawnNode (map snd ?F) ?s0"
  have eq: "advance dt s = ?s'" by (simp add: advance_def Let_def)
  have nodes: "\<forall>n\<in>set (resourceNodes ?s'). node_ok n"
  proof
    fix n assume "n \<in> set (resourceNodes ?s')"
    then obtain j where j: "j < length (resourceNodes s)" and n: "n = resourceNodes ?s' ! j"
      by (auto simp: in_set_conv_nth)
    have old: "node_ok (resourceNodes s ! j)" using ok j by (simp add: system_ok_def)
    show "node_ok n"
      unfolding n using respawn_all_nth [of j ?s0 "map snd ?F"] j old
      by (auto simp: node_ok_def)
  qed
  have dist: "distinct (map snd (timeouts s))" using ok by (simp add: system_ok_def)
  have pend: "\<forall>e\<in>set ?P. snd e < length (resourceNodes ?s')
                \<and> \<not> canGather (resourceNodes ?s' ! snd e) \<and> ?t < fst e"
  proof
    fix e assume e: "e \<in> set ?P"
    then have e_in: "e \<in> set (timeouts s)" and nd: "\<not> due ?t e" by auto
    have j: "snd e < length (resourceNodes s)" and ng: "\<not> canGather (resourceNodes s ! snd e)"
      using ok e_in by (auto simp: system_ok_def)
    have "snd e \<notin> snd ` set ?F"
    proof
      assume "snd e \<in> snd ` set ?F"
      then obtain f where f: "f \<in> set (timeouts s)" "due ?t f" "snd f = snd e" by auto
      with dist e_in have "f = e" by (meson distinct_map inj_onD)
      with f nd show False by simp
    qed
    then have "resourceNodes ?s' ! snd e = resourceNodes s ! snd e"
      using respawn_all_nth [of "snd e" ?s0 "map snd ?F"] j by simp
    with j ng nd show "snd e < length (resourceNodes ?s')
                \<and> \<not> canGather (resourceNodes ?s' ! snd e) \<and> ?t < fst e"
      by (simp add: due_def)
  qed
  have "distinct (map snd ?P)" using dist by (rule distinct_map_filter)
  with nodes pend show ?thesis unfolding eq system_ok_def by simp
qed

lemma reachable_ok: "reachable s \<Longrightarrow> system_ok s"
proof (induction rule: reachable.induct)
  case (start t0)
  show ?case by (rule system_ok_start)
next
  case (step s e)
  then show ?case
    by (cases e) (simp_all add: system_ok_create system_ok_gather system_ok_advance)
qed

lemma gather_length [simp]:
  "length (resourceNodes (snd (gatherResource j m s))) = length (resourceNodes s)"
  by (simp add: gatherResource_def depleteNode_def Let_def)

lemma gather_clock [simp]: "clock (snd (gatherResource j m s)) = clock s"
  by (simp add: gatherResource_def depleteNode_def Let_def)

lemma gather_timeouts_mono:
  "e \<in> set (timeouts s) \<Longrightarrow> e \<in> set (timeouts (snd (gatherResource j m s)))"
  by (simp add: gatherResource_def depleteNode_def Let_def)

lemma gather_other_node:
  "j \<noteq> i \<Longrightarrow> resourceNodes (snd (gatherResource j m s)) ! i = resourceNodes s ! i"
  by (simp add: gatherResource_def depleteNode_def Let_def)

lemma gather_depleted_node:
  "\<not> canGather (resourceNodes s ! i) \<Longrightarrow> snd (gatherResource i m s) = s"
  by (simp add: gatherResource_def)

lemma advance_length [simp]:
  "length (resourceNodes (advance dt s)) = length (resourceNodes s)"
  by (simp add: advance_def Let_def)

lemma advance_clock [simp]: "clock (advance dt s) = clock s + dt"
  by (simp add: advance_def Let_def)

lemma advance_timeouts [simp]:
  "timeouts (advance dt s) = filter (\<lambda>e. \<not> due (clock s + dt) e) (timeouts s)"
  by (simp add: advance_def Let_def)

lemma advance_nth:
  "i < length (resourceNodes s) \<Longrightarrow>
   resourceNodes (advance dt s) ! i =
     (if i \<in> snd ` set (filter (due (clock s + dt)) (timeouts s))
      then (resourceNodes s ! i)\<lparr> health := maxHealth (resourceNodes s ! i), canGather := True \<rparr>
      else resourceNodes s ! i)"
  using respawn_all_nth [of i "s\<lparr> clock := clock s + dt,
      timeouts := filter (\<lambda>e. \<not> due (clock s + dt) e) (timeouts s) \<rparr>"
      "map snd (filter (due (clock s + dt)) (timeouts s))"]
  by (simp add: advance_def Let_def)

lemma waiting_only_timeout:
  assumes "waiting i D n0 s" and "(d, i) \<in> set (timeouts s)"
  shows "d = D"
proof -
  have "distinct (map snd (timeouts s))" and "(D, i) \<in> set (timeouts s)"
    using assms(1) by (simp_all add: waiting_def system_ok_def)
  with assms(2) have "(d, i) = (D, i)"
    by (metis distinct_map inj_onD snd_conv)
  then show ?thesis by simp
qed

lemma waiting_exec:
  assumes w: "waiting i D n0 s"
    and early: "clock s + elapsed [e] < D"
  shows "waiting i D n0 (exec s e)"
proof (cases e)
  case (Create t x y z)
  have "system_ok (exec s e)" using w Create by (simp add: waiting_def system_ok_create)
  then show ?thesis
    using w Create by (simp add: waiting_def createResourceNode_def Let_def nth_append)
next
  case (Gather j m)
  have ok: "system_ok (exec s e)" using w Gather by (simp add: waiting_def system_ok_gather)
  show ?thesis
  proof (cases "j = i")
    case True
    with w Gather show ?thesis by (simp add: waiting_def gather_depleted_node)
  next
    case False
    with w Gather ok show ?thesis
      by (simp add: waiting_def gather_other_node gather_timeouts_mono)
  qed
next
  case (Advance dt)
  have ok: "system_ok (exec s e)" using w Advance by (simp add: waiting_def system_ok_advance)
  have i: "i < length (resourceNodes s)" using w by (simp add: waiting_def)
  have t: "clock s + dt < D" using early Advance by simp
  have not_fired: "i \<notin> snd ` set (filter (due (clock s + dt)) (timeouts s))"
  proof
    assume "i \<in> snd ` set (filter (due (clock s + dt)) (timeouts s))"
    then obtain d where d: "(d, i) \<in> set (timeouts s)" "due (clock s + dt) (d, i)" by auto
    from waiting_only_timeout [OF w d(1)] d(2) t show False by (simp add: due_def)
  qed
  have "(D, i) \<in> set (timeouts (advance dt s))"
    using w t by (simp add: waiting_def due_def)
  with ok w i not_fired Advance show ?thesis
    by (simp add: waiting_def advance_nth del: advance_timeouts)
qed

lemma run_Nil [simp]: "run [] s = s"
  by (simp add: run_def)

lemma run_Cons [simp]: "run (e # evs) s = run evs (exec s e)"
  by (simp add: run_def)

lemma exec_clock: "clock (exec s e) = clock s + elapsed [e]"
  by (cases e) (simp_all add: createResourceNode_def Let_def)

lemma elapsed_Cons: "elapsed (e # evs) = elapsed [e] + elapsed evs"
  by (cases e) simp_all

lemma waiting_run:
  "waiting i D n0 s \<Longrightarrow> clock s + elapsed evs < D \<Longrightarrow>
   waiting i D n0 (run evs s) \<and> clock (run evs s) = clock s + elapsed evs"
proof (induction evs arbitrary: s)
  case Nil
  then show ?case by simp
next
  case (Cons e evs)
  have split: "elapsed (e # evs) = elapsed [e] + elapsed evs" by (rule elapsed_Cons)
  have w: "waiting i D n0 (exec s e)"
    using Cons.prems split by (intro waiting_exec) simp_all
  have c: "clock (exec s e) + elapsed evs < D"
    using Cons.prems split by (simp add: exec_clock)
  from Cons.IH [OF w c] show ?case
    by (simp add: exec_clock split)
qed

lemma waiting_fires:
  assumes w: "waiting i D n0 s" and late: "D \<le> clock s + dt"
  shows "resourceNodes (advance dt s) ! i = n0\<lparr> health := maxHealth n0, canGather := True \<rparr>"
proof -
  have i: "i < length (resourceNodes s)" and n0: "resourceNodes s ! i = n0"
    and d: "(D, i) \<in> set (timeouts s)"
    using w by (simp_all add: waiting_def)
  have "(D, i) \<in> set (filter (due (clock s + dt)) (timeouts s))"
    using d late by (simp add: due_def)
  then have "i \<in> snd ` set (filter (due (clock s + dt)) (timeouts s))"
    by force
  then show ?thesis using advance_nth [OF i, of dt] n0 by simp
qed

lemma exec_keeps_node:
  "i < length (resourceNodes s) \<Longrightarrow>
   i < length (resourceNodes (exec s e))
   \<and> type (resourceNodes (exec s e) ! i) = type (resourceNodes s ! i)
   \<and> position (resourceNodes (exec s e) ! i) = position (resourceNodes s ! i)
   \<and> maxHealth (resourceNodes (exec s e) ! i) = maxHealth (resourceNodes s ! i)"
proof (cases e)
  case (Create t x y z)
  assume "i < length (resourceNodes s)"
  then show ?thesis using Create by (simp add: createResourceNode_def Let_def nth_append)
next
  case (Gather j m)
  assume "i < length (resourceNodes s)"
  then show ?thesis using Gather
    by (simp add: gatherResource_def depleteNode_def Let_def nth_list_update)
next
  case (Advance dt)
  assume "i < length (resourceNodes s)"
  then show ?thesis using Advance by (simp add: advance_nth)
qed

lemma run_keeps_node:
  "i < length (resourceNodes s) \<Longrightarrow>
   i < length (resourceNodes (run evs s))
   \<and> type (resourceNodes (run evs s) ! i) = type (resourceNodes s ! i)
   \<and> position (resourceNodes (run evs s) ! i) = position (resourceNodes s ! i)
   \<and> maxHealth (resourceNodes (run evs s) ! i) = maxHealth (resourceNodes s ! i)"
proof (induction evs arbitrary: s)
  case Nil
  then show ?case by simp
next
  case (Cons e evs)
  from exec_keeps_node [OF Cons.prems, of e] Cons.IH [of "exec s e"]
  show ?case by simp
qed

lemma reachable_run: "reachable s \<Longrightarrow> reachable (run evs s)"
  by (induction evs arbitrary: s) (simp_all add: reachable.step)

subsection \<open>Gathering\<close>

text \<open>
  Claim C2. For a gatherable node and any multiplier, \<open>gatherResource\<close> lowers the health of
  the node by exactly 2 if the multiplier is at least 2 and by exactly 1 otherwise, and
  returns wood for a tree, stone for a rock and fiber for a plant, with the amounts
  \<open>\<lfloor>1 \<times> m\<rfloor>\<close>, \<open>\<lfloor>1 \<times> m\<rfloor>\<close> and \<open>\<lfloor>2 \<times> m\<rfloor>\<close>. Nothing is assumed about the health, so the
  drop is the same whether or not the call depletes the node.
\<close>

theorem gatherResource_damage_and_drop:
  assumes "i < length (resourceNodes s)" and "canGather (resourceNodes s ! i)"
  shows "health (resourceNodes (snd (gatherResource i m s)) ! i)
           = health (resourceNodes s ! i) - (if m \<ge> 2 then 2 else 1)
       \<and> (type (resourceNodes s ! i) = ''tree'' \<longrightarrow>
            fst (gatherResource i m s) = Some \<lparr> drop_type = ''wood'', drop_amount = \<lfloor>1 * m\<rfloor> \<rparr>)
       \<and> (type (resourceNodes s ! i) = ''rock'' \<longrightarrow>
            fst (gatherResource i m s) = Some \<lparr> drop_type = ''stone'', drop_amount = \<lfloor>1 * m\<rfloor> \<rparr>)
       \<and> (type (resourceNodes s ! i) = ''plant'' \<longrightarrow>
            fst (gatherResource i m s) = Some \<lparr> drop_type = ''fiber'', drop_amount = \<lfloor>2 * m\<rfloor> \<rparr>)"
  using assms
  by (simp add: gatherResource_def depleteNode_def getResourceDrop_def Let_def)

text \<open>A plant gathered with multiplier 2.5: the call depletes it and still returns 5 fiber.\<close>

theorem gatherResource_damage_and_drop_witness:
  "0 < length (resourceNodes (createResourceNode ''plant'' 1 0 1 (newResourceSystem 0)))
   \<and> canGather (resourceNodes (createResourceNode ''plant'' 1 0 1 (newResourceSystem 0)) ! 0)
   \<and> health (resourceNodes (snd (gatherResource 0 (5 / 2)
         (createResourceNode ''plant'' 1 0 1 (newResourceSystem 0)))) ! 0) = 0
   \<and> fst (gatherResource 0 (5 / 2) (createResourceNode ''plant'' 1 0 1 (newResourceSystem 0)))
       = Some \<lparr> drop_type = ''fiber'', drop_amount = 5 \<rparr>"
proof -
  let ?s = "createResourceNode ''plant'' 1 0 1 (newResourceSystem 0)"
  have i: "0 < length (resourceNodes ?s)"
    by (simp add: createResourceNode_def newResourceSystem_def Let_def)
  have g: "canGather (resourceNodes ?s ! 0)"
    by (simp add: createResourceNode_def newResourceSystem_def Let_def)
  have t: "type (resourceNodes ?s ! 0) = ''plant''" "health (resourceNodes ?s ! 0) = 2"
    by (simp_all add: createResourceNode_def newResourceSystem_def Let_def getMaxHealth_def)
  from gatherResource_damage_and_drop [OF i g, of "5 / 2"] t i g show ?thesis
    by simp
qed

subsection \<open>The closest node\<close>

text \<open>
  Claim C10. \<open>getClosestNode\<close> returns either nothing, and then no gatherable node is closer
  than \<open>maxDistance\<close>, or a node of the collection that is gatherable, strictly closer than
  \<open>maxDistance\<close>, and at least as close as every gatherable node. So a node that cannot be
  gathered is never returned, however near, nor is a node at distance exactly \<open>maxDistance\<close>.
\<close>

theorem getClosestNode_closest_gatherable:
  "(getClosestNode s p maxDistance = None \<longrightarrow>
      (\<forall>m\<in>set (resourceNodes s). canGather m \<longrightarrow> maxDistance \<le> distanceTo p (position m)))
   \<and> (\<forall>n. getClosestNode s p maxDistance = Some n \<longrightarrow>
          n \<in> set (resourceNodes s) \<and> canGather n
          \<and> distanceTo p (position n) < maxDistance
          \<and> (\<forall>m\<in>set (resourceNodes s). canGather m \<longrightarrow>
                 distanceTo p (position n) \<le> distanceTo p (position m)))"
  using getClosestNode_loop_result [of p "resourceNodes s" None maxDistance]
  unfolding getClosestNode_def by auto

text \<open>
  A depleted plant at distance 1, a rock at distance 3 and a tree at distance 5, with
  \<open>maxDistance = 5\<close>: the rock is returned.
\<close>

theorem getClosestNode_closest_gatherable_witness:
  "getClosestNode
     (run [Create ''plant'' 1 0 0, Create ''rock'' 3 0 0, Create ''tree'' 5 0 0, Gather 0 2]
        (newResourceSystem 0))
     \<lparr> vx = 0, vy = 0, vz = 0 \<rparr> 5
   = Some \<lparr> type = ''rock'', position = \<lparr> vx = 3, vy = 0, vz = 0 \<rparr>, health = 8, maxHealth = 8,
            canGather = True, respawnTime = 60000, respawnTimer = None \<rparr>
   \<and> distanceTo \<lparr> vx = 0, vy = 0, vz = 0 \<rparr> \<lparr> vx = 3, vy = 0, vz = 0 \<rparr> < 5"
proof -
  let ?s = "run [Create ''plant'' 1 0 0, Create ''rock'' 3 0 0, Create ''tree'' 5 0 0, Gather 0 2]
        (newResourceSystem 0)"
  let ?rock = "\<lparr> type = ''rock'', position = \<lparr> vx = 3, vy = 0, vz = 0 \<rparr>, health = 8, maxHealth = 8,
            canGather = True, respawnTime = 60000, respawnTimer = None \<rparr>"
  have found: "getClosestNode ?s \<lparr> vx = 0, vy = 0, vz = 0 \<rparr> 5 = Some ?rock"
    by (simp add: getClosestNode_def newResourceSystem_def createResourceNode_def
        gatherResource_def depleteNode_def getMaxHealth_def getResourceDrop_def Let_def
        distanceTo_along_x)
  from getClosestNode_closest_gatherable [of ?s "\<lparr> vx = 0, vy = 0, vz = 0 \<rparr>" 5] found
  show ?thesis by simp
qed

subsection \<open>Health and gatherability\<close>

text \<open>
  Claim C1, as stated: the health of a node is never negative and the node cannot be gathered
  exactly when its health is 0. This fails for a tree hit three times with multiplier 2: its
  health goes 5, 3, 1, \<open>-1\<close>, and \<open>depleteNode\<close> does not write the health.
\<close>

theorem node_health_counterexample:
  "\<not> (0 \<le> health (resourceNodes (run [Create ''tree'' 0 0 0, Gather 0 2, Gather 0 2, Gather 0 2]
                                     (newResourceSystem 0)) ! 0)
      \<and> (\<not> canGather (resourceNodes (run [Create ''tree'' 0 0 0, Gather 0 2, Gather 0 2, Gather 0 2]
                                     (newResourceSystem 0)) ! 0)
         \<longleftrightarrow> health (resourceNodes (run [Create ''tree'' 0 0 0, Gather 0 2, Gather 0 2, Gather 0 2]
                                     (newResourceSystem 0)) ! 0) = 0))"
  by (simp add: newResourceSystem_def createResourceNode_def gatherResource_def depleteNode_def
      getMaxHealth_def getResourceDrop_def Let_def)

text \<open>
  Claim C1, amended. In every state of the node collection that creating nodes, gathering
  and the respawn timeouts lead to, the health of a node is at least \<open>-1\<close>, and the node
  cannot be gathered exactly when its health is at most 0.
\<close>

theorem node_health_invariant:
  assumes "reachable s" and "n \<in> set (resourceNodes s)"
  shows "- 1 \<le> health n \<and> (\<not> canGather n \<longleftrightarrow> health n \<le> 0)"
  using reachable_ok [OF assms(1)] assms(2)
  by (auto simp: system_ok_def node_ok_def)

text \<open>The tree of the counterexample: reachable, depleted, at health \<open>-1\<close>.\<close>

theorem node_health_invariant_witness:
  "reachable (run [Create ''tree'' 0 0 0, Gather 0 2, Gather 0 2, Gather 0 2] (newResourceSystem 0))
   \<and> resourceNodes (run [Create ''tree'' 0 0 0, Gather 0 2, Gather 0 2, Gather 0 2]
                      (newResourceSystem 0)) ! 0
       \<in> set (resourceNodes (run [Create ''tree'' 0 0 0, Gather 0 2, Gather 0 2, Gather 0 2]
                      (newResourceSystem 0)))
   \<and> - 1 \<le> health (resourceNodes (run [Create ''tree'' 0 0 0, Gather 0 2, Gather 0 2, Gather 0 2]
                      (newResourceSystem 0)) ! 0)
   \<and> (\<not> canGather (resourceNodes (run [Create ''tree'' 0 0 0, Gather 0 2, Gather 0 2, Gather 0 2]
                      (newResourceSystem 0)) ! 0)
       \<longleftrightarrow> health (resourceNodes (run [Create ''tree'' 0 0 0, Gather 0 2, Gather 0 2, Gather 0 2]
                      (newResourceSystem 0)) ! 0) \<le> 0)"
proof -
  let ?s = "run [Create ''tree'' 0 0 0, Gather 0 2, Gather 0 2, Gather 0 2] (newResourceSystem 0)"
  have r: "reachable ?s" by (rule reachable_run) (rule reachable.start)
  have m: "resourceNodes ?s ! 0 \<in> set (resourceNodes ?s)"
    by (rule nth_mem) (simp add: newResourceSystem_def createResourceNode_def Let_def)
  from r m node_health_invariant [OF r m] show ?thesis by blast
qed

subsection \<open>Respawn\<close>

text \<open>
  Claim C6. Let a gather deplete node \<open>i\<close> of a reachable collection. Whatever happens next
  (gathers, new nodes, time passing), as long as less than 60000 milliseconds have passed
  the node cannot be gathered; and at the moment the 60000 milliseconds have passed, it
  can be gathered again and its health is its \<open>maxHealth\<close>, with nothing else needed for
  that than the passing of time. The node stays in the collection at its index, with its
  type and position, throughout.
\<close>

theorem respawn_after_delay_and_not_before:
  assumes r: "reachable s" and i: "i < length (resourceNodes s)"
    and g: "canGather (resourceNodes s ! i)"
    and depleted: "\<not> canGather (resourceNodes (snd (gatherResource i m s)) ! i)"
  shows "(elapsed evs < 60000 \<longrightarrow>
            \<not> canGather (resourceNodes (run evs (snd (gatherResource i m s))) ! i))
       \<and> (elapsed evs < 60000 \<and> 60000 \<le> elapsed evs + dt \<longrightarrow>
            health (resourceNodes (advance dt (run evs (snd (gatherResource i m s)))) ! i)
              = maxHealth (resourceNodes s ! i)
            \<and> canGather (resourceNodes (advance dt (run evs (snd (gatherResource i m s)))) ! i))
       \<and> i < length (resourceNodes (run evs (snd (gatherResource i m s))))
       \<and> type (resourceNodes (run evs (snd (gatherResource i m s))) ! i) = type (resourceNodes s ! i)
       \<and> position (resourceNodes (run evs (snd (gatherResource i m s))) ! i)
           = position (resourceNodes s ! i)"
proof -
  let ?s0 = "snd (gatherResource i m s)"
  let ?n0 = "resourceNodes ?s0 ! i"
  let ?D = "clock s + 60000"
  have ok: "system_ok s" using r by (rule reachable_ok)
  have ok0: "system_ok ?s0" using ok by (rule system_ok_gather)
  have rt: "respawnTime (resourceNodes s ! i) = 60000"
    using ok i by (simp add: system_ok_def node_ok_def)
  have low: "health (resourceNodes s ! i) - (if m \<ge> 2 then 2 else 1) \<le> 0"
    using depleted i g by (auto simp: gatherResource_def Let_def split: if_splits)
  have timeout: "(?D, i) \<in> set (timeouts ?s0)"
    using i g low rt by (simp add: gatherResource_def depleteNode_def Let_def)
  have mh: "maxHealth ?n0 = maxHealth (resourceNodes s ! i)"
    using i g by (simp add: gatherResource_def depleteNode_def Let_def)
  have w: "waiting i ?D ?n0 ?s0"
    using ok0 i depleted timeout by (simp add: waiting_def)
  have c0: "clock ?s0 = clock s" by simp
  have before: "\<not> canGather (resourceNodes (run evs ?s0) ! i)" if "elapsed evs < 60000"
    using waiting_run [OF w, of evs] that c0 by (simp add: waiting_def)
  have after: "health (resourceNodes (advance dt (run evs ?s0)) ! i) = maxHealth (resourceNodes s ! i)
            \<and> canGather (resourceNodes (advance dt (run evs ?s0)) ! i)"
    if "elapsed evs < 60000" and "60000 \<le> elapsed evs + dt"
  proof -
    from waiting_run [OF w, of evs] that(1) c0
    have w': "waiting i ?D ?n0 (run evs ?s0)" and c: "clock (run evs ?s0) = clock s + elapsed evs"
      by simp_all
    have "?D \<le> clock (run evs ?s0) + dt" using c that(2) by simp
    from waiting_fires [OF w' this] mh show ?thesis by simp
  qed
  have i0: "i < length (resourceNodes ?s0)" using i by simp
  have keep0: "type ?n0 = type (resourceNodes s ! i) \<and> position ?n0 = position (resourceNodes s ! i)"
    using i g by (simp add: gatherResource_def depleteNode_def Let_def)
  from run_keeps_node [OF i0, of evs] keep0 before after show ?thesis by simp
qed

text \<open>
  A plant depleted at time 7; after 30000 ms, a gather attempt and 29999 ms more it is
  still depleted, and one millisecond later it is back at health 2.
\<close>

theorem respawn_after_delay_and_not_before_witness:
  "reachable (run [Create ''plant'' 0 0 0] (newResourceSystem 7))
   \<and> \<not> canGather (resourceNodes (snd (gatherResource 0 2
         (run [Create ''plant'' 0 0 0] (newResourceSystem 7)))) ! 0)
   \<and> \<not> canGather (resourceNodes (run [Advance 30000, Gather 0 1, Advance 29999]
         (snd (gatherResource 0 2 (run [Create ''plant'' 0 0 0] (newResourceSystem 7))))) ! 0)
   \<and> health (resourceNodes (advance 1 (run [Advance 30000, Gather 0 1, Advance 29999]
         (snd (gatherResource 0 2 (run [Create ''plant'' 0 0 0] (newResourceSystem 7)))))) ! 0) = 2
   \<and> canGather (resourceNodes (advance 1 (run [Advance 30000, Gather 0 1, Advance 29999]
         (snd (gatherResource 0 2 (run [Create ''plant'' 0 0 0] (newResourceSystem 7)))))) ! 0)"
proof -
  let ?s = "run [Create ''plant'' 0 0 0] (newResourceSystem 7)"
  have r: "reachable ?s" by (rule reachable_run) (rule reachable.start)
  have i: "0 < length (resourceNodes ?s)"
    by (simp add: createResourceNode_def newResourceSystem_def Let_def)
  have g: "canGather (resourceNodes ?s ! 0)"
    by (simp add: createResourceNode_def newResourceSystem_def Let_def)
  have d: "\<not> canGather (resourceNodes (snd (gatherResource 0 2 ?s)) ! 0)"
    by (simp add: createResourceNode_def newResourceSystem_def gatherResource_def depleteNode_def
        getMaxHealth_def Let_def)
  have mh: "maxHealth (resourceNodes ?s ! 0) = 2"
    by (simp add: createResourceNode_def newResourceSystem_def getMaxHealth_def Let_def)
  have e: "elapsed [Advance 30000, Gather 0 1, Advance 29999] < 60000"
    "60000 \<le> elapsed [Advance 30000, Gather 0 1, Advance 29999] + 1"
    by simp_all
  from respawn_after_delay_and_not_before
         [OF r i g d, of "[Advance 30000, Gather 0 1, Advance 29999]" 1] e mh r d
  show ?thesis by simp
qed


section \<open>Properties of the creatures\<close>

subsection \<open>Auxiliary facts\<close>

lemma jdistanceTo_along_x:
  "jdistanceTo \<lparr> jx = Num a, jy = Num b, jz = Num c \<rparr> \<lparr> jx = Num a', jy = Num b, jz = Num c \<rparr>
     = Num \<bar>a - a'\<bar>"
  by (simp add: jdistanceTo_def subVectors_def vlength_def)


lemma updateTimer_keeps:
  assumes "\<not> (stateTimer c > 0 \<and> stateTimer c - deltaTime * 1000 \<le> 0)"
  shows "state (updateTimer c deltaTime) = state c"
  using assms by (auto simp: updateTimer_def Let_def)

lemma updateTimer_fields [simp]:
  "creature_position (updateTimer c deltaTime) = creature_position c"
  "speciesData (updateTimer c deltaTime) = speciesData c"
  "velocity (updateTimer c deltaTime) = velocity c"
  "isDead (updateTimer c deltaTime) = isDead c"
  "creature_health (updateTimer c deltaTime) = creature_health c"
  "lastAttackTime (updateTimer c deltaTime) = lastAttackTime c"
  by (simp_all add: updateTimer_def Let_def)

lemma applyMovement_fields [simp]:
  "state (applyMovement c deltaTime w) = state c"
  "target (applyMovement c deltaTime w) = target c"
  "speciesData (applyMovement c deltaTime w) = speciesData c"
  "isDead (applyMovement c deltaTime w) = isDead c"
  "creature_health (applyMovement c deltaTime w) = creature_health c"
  "lastAttackTime (applyMovement c deltaTime w) = lastAttackTime c"
  "jx (creature_position (applyMovement c deltaTime w))
     = jadd (jx (creature_position c)) (jmul (jx (velocity c)) (Num deltaTime))"
  "jz (creature_position (applyMovement c deltaTime w))
     = jadd (jz (creature_position c)) (jmul (jz (velocity c)) (Num deltaTime))"
  by (simp_all add: applyMovement_def Let_def)

lemma updateCreature_in_chase:
  assumes "state (updateTimer c deltaTime) = Chase"
  shows "updateCreature c deltaTime w =
     (applyMovement
        (fst (updateChase (updateTimer c deltaTime)
                (jdistanceTo (creature_position c) (jvec (player_position w))) w)) deltaTime w, w)"
  using assms by (simp add: updateCreature_def updateChase_def Let_def)

lemma updateCreature_in_idle:
  assumes "state (updateTimer c deltaTime) = Idle"
  shows "updateCreature c deltaTime w =
     (applyMovement
        (fst (updateIdle (updateTimer c deltaTime)
                (jdistanceTo (creature_position c) (jvec (player_position w))) w)) deltaTime
        (snd (updateIdle (updateTimer c deltaTime)
                (jdistanceTo (creature_position c) (jvec (player_position w))) w)),
      snd (updateIdle (updateTimer c deltaTime)
                (jdistanceTo (creature_position c) (jvec (player_position w))) w))"
  using assms by (simp add: updateCreature_def Let_def split: prod.splits)

lemma updateTimer_idle: "state c = Idle \<Longrightarrow> state (updateTimer c deltaTime) = Idle"
  by (simp add: updateTimer_def Let_def)

lemma jlt_below:
  "jlt d (Num a) \<Longrightarrow> a \<le> b \<Longrightarrow> \<not> jgt d (Num b)"
  by (cases d) simp_all

lemma sample_radius:
  "sqrt ((cos a * d) * (cos a * d) + (sin a * d) * (sin a * d)) = \<bar>d\<bar>"
proof -
  have "(cos a * d) * (cos a * d) + (sin a * d) * (sin a * d)
          = (cos a * cos a + sin a * sin a) * (d * d)"
    by (simp only: algebra_simps)
  also have "\<dots> = d * d" by (simp only: sin_cos_squared_add3 mult_1)
  finally show ?thesis by simp
qed

lemma spawnSample_shift:
  "spawnSample (w\<lparr> drawn := drawn w + 2 \<rparr>) k = spawnSample w (Suc k)"
  by (simp add: spawnSample_def Let_def)

lemma findSpawnPosition_step:
  "findSpawnPosition_loop (Suc n) w =
     (if validLand (jy (spawnSample w 0))
      then (Some (spawnSample w 0), w\<lparr> drawn := drawn w + 2 \<rparr>)
      else findSpawnPosition_loop n (w\<lparr> drawn := drawn w + 2 \<rparr>))"
  by (simp add: mathRandom_def spawnSample_def validLand_def Let_def)

lemma findSpawnPosition_loop_spec:
  "(fst (findSpawnPosition_loop n w) = None \<longleftrightarrow> (\<forall>k<n. \<not> validLand (jy (spawnSample w k))))
   \<and> (\<forall>p. fst (findSpawnPosition_loop n w) = Some p \<longrightarrow>
         (\<exists>k<n. p = spawnSample w k \<and> validLand (jy p)))"
proof (induction n arbitrary: w)
  case 0
  show ?case by simp
next
  case (Suc n)
  let ?w2 = "w\<lparr> drawn := drawn w + 2 \<rparr>"
  show ?case
  proof (cases "validLand (jy (spawnSample w 0))")
    case True
    then have "fst (findSpawnPosition_loop (Suc n) w) = Some (spawnSample w 0)"
      by (simp add: findSpawnPosition_step del: findSpawnPosition_loop.simps)
    with True show ?thesis by auto
  next
    case False
    then have eq: "findSpawnPosition_loop (Suc n) w = findSpawnPosition_loop n ?w2"
      by (simp add: findSpawnPosition_step del: findSpawnPosition_loop.simps)
    have all: "(\<forall>k<Suc n. \<not> validLand (jy (spawnSample w k)))
                \<longleftrightarrow> (\<forall>k<n. \<not> validLand (jy (spawnSample w (Suc k))))"
      using False by (auto simp: less_Suc_eq_0_disj)
    have ex: "\<exists>k<Suc n. p = spawnSample w k \<and> validLand (jy p)"
      if "\<exists>k<n. p = spawnSample w (Suc k) \<and> validLand (jy p)" for p
      using that by auto
    from Suc.IH [of ?w2] show ?thesis
      unfolding eq spawnSample_shift all using ex by blast
  qed
qed

lemma validLand_Num: "validLand h \<longleftrightarrow> (\<exists>r. h = Num r \<and> - 1 < r \<and> r < 15)"
  by (cases h) (simp_all add: validLand_def)

lemma spawnSample_annulus:
  assumes "0 \<le> randoms w (drawn w + 2 * k + 1)" and "randoms w (drawn w + 2 * k + 1) < 1"
  shows "\<exists>x z. jx (spawnSample w k) = Num x \<and> jz (spawnSample w k) = Num z
           \<and> jy (spawnSample w k) = getHeightAt w (Num x) (Num z)
           \<and> 20 \<le> sqrt (x * x + z * z) \<and> sqrt (x * x + z * z) < 20 + spawnRadius"
  using assms by (simp add: spawnSample_def Let_def sample_radius spawnRadius_def)

lemma handler_keeps:
  "updateIdle c d w = (c', w') \<Longrightarrow>
     isDead c' = isDead c \<and> creature_health c' = creature_health c
     \<and> speciesData c' = speciesData c \<and> lastAttackTime c' = lastAttackTime c
     \<and> attackLog w' = attackLog w"
  "updateWander c d w = (c', w') \<Longrightarrow>
     isDead c' = isDead c \<and> creature_health c' = creature_health c
     \<and> speciesData c' = speciesData c \<and> lastAttackTime c' = lastAttackTime c
     \<and> attackLog w' = attackLog w"
  "updateChase c d w = (c', w') \<Longrightarrow>
     isDead c' = isDead c \<and> creature_health c' = creature_health c
     \<and> speciesData c' = speciesData c \<and> lastAttackTime c' = lastAttackTime c
     \<and> attackLog w' = attackLog w"
  "updateFlee c d w = (c', w') \<Longrightarrow>
     isDead c' = isDead c \<and> creature_health c' = creature_health c
     \<and> speciesData c' = speciesData c \<and> lastAttackTime c' = lastAttackTime c
     \<and> attackLog w' = attackLog w"
  "updateAttack c d w = (c', w') \<Longrightarrow>
     isDead c' = isDead c \<and> creature_health c' = creature_health c
     \<and> speciesData c' = speciesData c"
  by (auto simp: updateIdle_def updateWander_def updateChase_def updateFlee_def updateAttack_def
      mathRandom_def Let_def split: prod.splits option.splits if_splits)

lemma updateCreature_handler:
  obtains c2 w2 where "updateCreature c deltaTime w = (applyMovement c2 deltaTime w2, w2)"
    and "(state (updateTimer c deltaTime) = Idle \<and>
           updateIdle (updateTimer c deltaTime)
             (jdistanceTo (creature_position c) (jvec (player_position w))) w = (c2, w2))
       \<or> (state (updateTimer c deltaTime) = Wander \<and>
           updateWander (updateTimer c deltaTime)
             (jdistanceTo (creature_position c) (jvec (player_position w))) w = (c2, w2))
       \<or> (state (updateTimer c deltaTime) = Chase \<and>
           updateChase (updateTimer c deltaTime)
             (jdistanceTo (creature_position c) (jvec (player_position w))) w = (c2, w2))
       \<or> (state (updateTimer c deltaTime) = Flee \<and>
           updateFlee (updateTimer c deltaTime)
             (jdistanceTo (creature_position c) (jvec (player_position w))) w = (c2, w2))
       \<or> (state (updateTimer c deltaTime) = Attack \<and>
           updateAttack (updateTimer c deltaTime)
             (jdistanceTo (creature_position c) (jvec (player_position w))) w = (c2, w2))"
proof (cases "state (updateTimer c deltaTime)")
  case Idle
  then show thesis
    using that [of "fst (updateIdle (updateTimer c deltaTime)
                      (jdistanceTo (creature_position c) (jvec (player_position w))) w)"
                   "snd (updateIdle (updateTimer c deltaTime)
                      (jdistanceTo (creature_position c) (jvec (player_position w))) w)"]
    by (simp add: updateCreature_def Let_def split: prod.splits)
next
  case Wander
  then show thesis
    using that [of "fst (updateWander (updateTimer c deltaTime)
                      (jdistanceTo (creature_position c) (jvec (player_position w))) w)"
                   "snd (updateWander (updateTimer c deltaTime)
                      (jdistanceTo (creature_position c) (jvec (player_position w))) w)"]
    by (simp add: updateCreature_def Let_def split: prod.splits)
next
  case Chase
  then show thesis
    using that [of "fst (updateChase (updateTimer c deltaTime)
                      (jdistanceTo (creature_position c) (jvec (player_position w))) w)"
                   "snd (updateChase (updateTimer c deltaTime)
                      (jdistanceTo (creature_position c) (jvec (player_position w))) w)"]
    by (simp add: updateCreature_def Let_def split: prod.splits)
next
  case Attack
  then show thesis
    using that [of "fst (updateAttack (updateTimer c deltaTime)
                      (jdistanceTo (creature_position c) (jvec (player_position w))) w)"
                   "snd (updateAttack (updateTimer c deltaTime)
                      (jdistanceTo (creature_position c) (jvec (player_position w))) w)"]
    by (simp add: updateCreature_def Let_def split: prod.splits)
next
  case Flee
  then show thesis
    using that [of "fst (updateFlee (updateTimer c deltaTime)
                      (jdistanceTo (creature_position c) (jvec (player_position w))) w)"
                   "snd (updateFlee (updateTimer c deltaTime)
                      (jdistanceTo (creature_position c) (jvec (player_position w))) w)"]
    by (simp add: updateCreature_def Let_def split: prod.splits)
qed

lemma updateCreature_keeps:
  "isDead (fst (updateCreature c deltaTime w)) = isDead c"
  "creature_health (fst (updateCreature c deltaTime w)) = creature_health c"
  "speciesData (fst (updateCreature c deltaTime w)) = speciesData c"
proof -
  obtain c2 w2 where u: "updateCreature c deltaTime w = (applyMovement c2 deltaTime w2, w2)"
    and h: "(state (updateTimer c deltaTime) = Idle \<and>
           updateIdle (updateTimer c deltaTime)
             (jdistanceTo (creature_position c) (jvec (player_position w))) w = (c2, w2))
       \<or> (state (updateTimer c deltaTime) = Wander \<and>
           updateWander (updateTimer c deltaTime)
             (jdistanceTo (creature_position c) (jvec (player_position w))) w = (c2, w2))
       \<or> (state (updateTimer c deltaTime) = Chase \<and>
           updateChase (updateTimer c deltaTime)
             (jdistanceTo (creature_position c) (jvec (player_position w))) w = (c2, w2))
       \<or> (state (updateTimer c deltaTime) = Flee \<and>
           updateFlee (updateTimer c deltaTime)
             (jdistanceTo (creature_position c) (jvec (player_position w))) w = (c2, w2))
       \<or> (state (updateTimer c deltaTime) = Attack \<and>
           updateAttack (updateTimer c deltaTime)
             (jdistanceTo (creature_position c) (jvec (player_position w))) w = (c2, w2))"
    by (rule updateCreature_handler)
  from h have "isDead c2 = isDead c \<and> creature_health c2 = creature_health c
      \<and> speciesData c2 = speciesData c"
    using handler_keeps [of "updateTimer c deltaTime"
        "jdistanceTo (creature_position c) (jvec (player_position w))" w c2 w2]
    by auto
  then show "isDead (fst (updateCreature c deltaTime w)) = isDead c"
    "creature_health (fst (updateCreature c deltaTime w)) = creature_health c"
    "speciesData (fst (updateCreature c deltaTime w)) = speciesData c"
    by (simp_all add: u)
qed

lemma update_loop_dead:
  "isDead c \<Longrightarrow>
   update_loop deltaTime (c # cs) w
     = (c # fst (update_loop deltaTime cs w), snd (update_loop deltaTime cs w))"
  by (simp add: case_prod_beta)

lemma update_loop_live:
  "\<not> isDead c \<Longrightarrow>
   update_loop deltaTime (c # cs) w
     = (fst (updateCreature c deltaTime w)
          # fst (update_loop deltaTime cs (snd (updateCreature c deltaTime w))),
        snd (update_loop deltaTime cs (snd (updateCreature c deltaTime w))))"
  by (simp add: case_prod_beta Let_def)

lemma update_loop_result:
  "list_all2 (\<lambda>c c'. isDead c' = isDead c \<and> creature_health c' = creature_health c
                      \<and> (isDead c \<longrightarrow> c' = c)) cs (fst (update_loop deltaTime cs w))"
proof (induction cs arbitrary: w)
  case Nil
  show ?case by simp
next
  case (Cons c cs)
  show ?case
  proof (cases "isDead c")
    case True
    with Cons.IH [of w] show ?thesis by (simp add: update_loop_dead del: update_loop.simps)
  next
    case False
    from Cons.IH [of "snd (updateCreature c deltaTime w)"] False
      updateCreature_keeps(1,2) [of c deltaTime w]
    show ?thesis by (simp add: update_loop_live del: update_loop.simps)
  qed
qed

lemma update_loop_skips_dead:
  "snd (update_loop deltaTime cs w)
     = snd (update_loop deltaTime (filter (\<lambda>c. \<not> isDead c) cs) w)"
proof (induction cs arbitrary: w)
  case Nil
  show ?case by simp
next
  case (Cons c cs)
  show ?case
  proof (cases "isDead c")
    case True
    with Cons.IH [of w] show ?thesis by (simp add: update_loop_dead del: update_loop.simps)
  next
    case False
    with Cons.IH [of "snd (updateCreature c deltaTime w)"] show ?thesis
      by (simp add: update_loop_live del: update_loop.simps)
  qed
qed

lemma getClosestCreature_loop_live:
  "getClosestCreature_loop p cs closest d = Some x \<Longrightarrow>
   closest = Some x \<or> (x \<in> set cs \<and> \<not> isDead x)"
proof (induction cs arbitrary: closest d)
  case Nil
  then show ?case by simp
next
  case (Cons c cs)
  show ?case
  proof (cases "\<not> isDead c \<and> jlt (jdistanceTo (jvec p) (creature_position c)) d")
    case True
    with Cons.prems
    have "getClosestCreature_loop p cs (Some c) (jdistanceTo (jvec p) (creature_position c)) = Some x"
      by (simp add: Let_def)
    from Cons.IH [OF this] True show ?thesis by auto
  next
    case False
    with Cons.prems have "getClosestCreature_loop p cs closest d = Some x"
      by (auto simp: Let_def split: if_splits)
    from Cons.IH [OF this] show ?thesis by auto
  qed
qed

lemma spawnCreature_alive: "\<not> isDead (fst (spawnCreature sp pos w))"
  by (simp add: spawnCreature_def Let_def split: prod.splits)

lemma spawnRandomCreature_creatures:
  "creatures (spawnRandomCreature s) = creatures s
   \<or> (\<exists>c. creatures (spawnRandomCreature s) = creatures s @ [c] \<and> \<not> isDead c)"
proof (cases "fst (findSpawnPosition (snd (mathRandom (env s))))")
  case None
  then show ?thesis
    by (auto simp: spawnRandomCreature_def Let_def split: prod.splits)
next
  case (Some pos)
  then show ?thesis
    using spawnCreature_alive
    by (auto simp: spawnRandomCreature_def Let_def split: prod.splits) (metis fst_conv)
qed

lemma spawnRandomCreature_dead_ok:
  assumes "\<forall>c\<in>set (creatures s). dead_ok c"
  shows "\<forall>c\<in>set (creatures (spawnRandomCreature s)). dead_ok c"
  using assms spawnRandomCreature_creatures [of s] by (auto simp: dead_ok_def)

lemma newCreatureSystem_dead_ok:
  "\<forall>c\<in>set (creatures (newCreatureSystem w)). dead_ok c"
proof -
  have "\<forall>c\<in>set (creatures ((spawnRandomCreature ^^ n) \<lparr> creatures = [], env = w \<rparr>)). dead_ok c"
    for n
    by (induction n) (simp_all add: spawnRandomCreature_dead_ok)
  then show ?thesis by (simp add: newCreatureSystem_def)
qed

lemma damageCreature_dead_ok:
  assumes "dead_ok c"
  shows "dead_ok (fst (damageCreature c dmg attacker w))"
  using assms
  by (auto simp: dead_ok_def damageCreature_def killCreature_def Let_def split: if_splits)

lemma damageAt_dead_ok:
  assumes "\<forall>c\<in>set (creatures s). dead_ok c" and "i < length (creatures s)"
  shows "\<forall>c\<in>set (creatures (damageAt i dmg attacker s)). dead_ok c"
proof
  fix c assume "c \<in> set (creatures (damageAt i dmg attacker s))"
  then have "c \<in> set ((creatures s)[i := fst (damageCreature (creatures s ! i) dmg attacker (env s))])"
    by (simp add: damageAt_def split: prod.splits)
  then have "c = fst (damageCreature (creatures s ! i) dmg attacker (env s)) \<or> c \<in> set (creatures s)"
    using set_update_subset_insert by fastforce
  with assms damageCreature_dead_ok [of "creatures s ! i" dmg attacker "env s"]
  show "dead_ok c" by auto
qed

lemma update_creatures:
  "creatures (update deltaTime s) = fst (update_loop deltaTime (creatures s) (env s))"
  by (simp add: update_def case_prod_beta)

lemma update_env:
  "env (update deltaTime s) = snd (update_loop deltaTime (creatures s) (env s))"
  by (simp add: update_def case_prod_beta)

lemma update_dead_ok:
  assumes "\<forall>c\<in>set (creatures s). dead_ok c"
  shows "\<forall>c\<in>set (creatures (update deltaTime s)). dead_ok c"
proof
  fix c' assume "c' \<in> set (creatures (update deltaTime s))"
  then obtain i where i: "i < length (creatures (update deltaTime s))"
    and c': "c' = creatures (update deltaTime s) ! i"
    by (auto simp: in_set_conv_nth)
  have l: "list_all2 (\<lambda>c c'. isDead c' = isDead c \<and> creature_health c' = creature_health c
                      \<and> (isDead c \<longrightarrow> c' = c)) (creatures s) (creatures (update deltaTime s))"
    unfolding update_creatures by (rule update_loop_result)
  from l i have len: "i < length (creatures s)"
    and same: "isDead c' = isDead (creatures s ! i)"
      "creature_health c' = creature_health (creatures s ! i)"
    by (simp_all add: list_all2_conv_all_nth c')
  from assms len have "dead_ok (creatures s ! i)" by simp
  with same show "dead_ok c'" by (simp add: dead_ok_def)
qed

lemma removeCreature_dead_ok:
  assumes "\<forall>c\<in>set (creatures s). dead_ok c"
  shows "\<forall>c\<in>set (creatures (removeCreature i s)). dead_ok c"
  using assms by (auto simp: removeCreature_def dest: in_set_takeD in_set_dropD)

lemma reachable_creatures_dead_ok:
  "reachable_creatures s \<Longrightarrow> \<forall>c\<in>set (creatures s). dead_ok c"
proof (induction rule: reachable_creatures.induct)
  case (constructed w)
  show ?case by (rule newCreatureSystem_dead_ok)
next
  case (frame s deltaTime)
  then show ?case using update_dead_ok by blast
next
  case (hit s i dmg attacker)
  then show ?case using damageAt_dead_ok by blast
next
  case (faded s i)
  then show ?case using removeCreature_dead_ok by blast
next
  case (replaced s)
  then show ?case using spawnRandomCreature_dead_ok by blast
next
  case (moved s p t)
  then show ?case by simp
qed

lemma dropLoot_loop_attackLog [simp]: "attackLog (dropLoot_loop c ds w) = attackLog w"
  by (induction ds arbitrary: w) (simp_all add: mathRandom_def Let_def split: prod.splits)

lemma damageCreature_cadence_fields:
  "lastAttackTime (fst (damageCreature c dmg attacker w)) = lastAttackTime c"
  "speciesData (fst (damageCreature c dmg attacker w)) = speciesData c"
  "attackLog (snd (damageCreature c dmg attacker w)) = attackLog w"
  by (simp_all add: damageCreature_def killCreature_def dropLoot_def Let_def)

lemma cadence_ok_cong:
  assumes "cadence_ok c w" and "speciesData c' = speciesData c"
    and "lastAttackTime c' = lastAttackTime c" and "attackLog w' = attackLog w"
  shows "cadence_ok c' w'"
  using assms by (auto simp: cadence_ok_def split: option.splits list.splits)

lemma updateAttack_cadence:
  assumes ok: "cadence_ok c w" and r: "updateAttack c d w = (c', w')"
  shows "cadence_ok c' w'"
proof (cases "jgt d (Num (attackRange (speciesData c) * (12 / 10)))")
  case True
  with r have "lastAttackTime c' = lastAttackTime c" "speciesData c' = speciesData c" "w' = w"
    by (auto simp: updateAttack_def Let_def)
  with ok show ?thesis by (intro cadence_ok_cong [OF ok]) simp_all
next
  case False
  note far = this
  show ?thesis
  proof (cases "attackCooldown (speciesData c)")
    case None
    with r far have "lastAttackTime c' = lastAttackTime c" "speciesData c' = speciesData c" "w' = w"
      by (auto simp: updateAttack_def Let_def)
    with ok show ?thesis by (intro cadence_ok_cong [OF ok]) simp_all
  next
    case (Some cd)
    show ?thesis
    proof (cases "real_of_int (dateNow w - lastAttackTime c) > cd")
      case True
      with r far Some have c': "lastAttackTime c' = dateNow w" "speciesData c' = speciesData c"
        and w': "attackLog w' = (dateNow w, damage (speciesData c)) # attackLog w"
        by (auto simp: updateAttack_def performAttack_def Let_def)
      from ok Some have sp: "spaced cd (map fst (attackLog w))"
        and last: "case attackLog w of [] \<Rightarrow> True | e # _ \<Rightarrow> lastAttackTime c = fst e"
        by (simp_all add: cadence_ok_def)
      have "spaced cd (dateNow w # map fst (attackLog w))"
        using sp last True by (cases "attackLog w") simp_all
      with c' w' Some show ?thesis by (simp add: cadence_ok_def)
    next
      case False
      with r far Some have "lastAttackTime c' = lastAttackTime c" "speciesData c' = speciesData c"
        "w' = w"
        by (auto simp: updateAttack_def Let_def)
      with ok show ?thesis by (intro cadence_ok_cong [OF ok]) simp_all
    qed
  qed
qed

lemma updateCreature_cadence:
  assumes ok: "cadence_ok c w"
  shows "cadence_ok (fst (updateCreature c deltaTime w)) (snd (updateCreature c deltaTime w))"
proof -
  let ?c1 = "updateTimer c deltaTime"
  let ?d = "jdistanceTo (creature_position c) (jvec (player_position w))"
  have ok1: "cadence_ok ?c1 w" by (rule cadence_ok_cong [OF ok]) simp_all
  obtain c2 w2 where u: "updateCreature c deltaTime w = (applyMovement c2 deltaTime w2, w2)"
    and h: "(state ?c1 = Idle \<and> updateIdle ?c1 ?d w = (c2, w2))
       \<or> (state ?c1 = Wander \<and> updateWander ?c1 ?d w = (c2, w2))
       \<or> (state ?c1 = Chase \<and> updateChase ?c1 ?d w = (c2, w2))
       \<or> (state ?c1 = Flee \<and> updateFlee ?c1 ?d w = (c2, w2))
       \<or> (state ?c1 = Attack \<and> updateAttack ?c1 ?d w = (c2, w2))"
    by (rule updateCreature_handler)
  have "cadence_ok c2 w2"
    using h
  proof (elim disjE conjE)
    assume "updateIdle ?c1 ?d w = (c2, w2)"
    from handler_keeps(1) [OF this] show ?thesis by (intro cadence_ok_cong [OF ok1]) simp_all
  next
    assume "updateWander ?c1 ?d w = (c2, w2)"
    from handler_keeps(2) [OF this] show ?thesis by (intro cadence_ok_cong [OF ok1]) simp_all
  next
    assume "updateChase ?c1 ?d w = (c2, w2)"
    from handler_keeps(3) [OF this] show ?thesis by (intro cadence_ok_cong [OF ok1]) simp_all
  next
    assume "updateFlee ?c1 ?d w = (c2, w2)"
    from handler_keeps(4) [OF this] show ?thesis by (intro cadence_ok_cong [OF ok1]) simp_all
  next
    assume "updateAttack ?c1 ?d w = (c2, w2)"
    with ok1 show ?thesis by (rule updateAttack_cadence)
  qed
  then have "cadence_ok (applyMovement c2 deltaTime w2) w2"
    by (rule cadence_ok_cong) simp_all
  then show ?thesis by (simp add: u)
qed

lemma agent_step_cadence:
  assumes ok: "cadence_ok c w"
  shows "cadence_ok (fst (agent_step (c, w) e)) (snd (agent_step (c, w) e))"
proof (cases e)
  case (AgentTick deltaTime)
  with ok updateCreature_cadence [OF ok, of deltaTime] show ?thesis by simp
next
  case (AgentHit dmg attacker)
  then show ?thesis
    by (intro cadence_ok_cong [OF ok]) (simp_all add: damageCreature_cadence_fields)
next
  case (PlayerAt p)
  then show ?thesis by (intro cadence_ok_cong [OF ok]) simp_all
next
  case (ClockAt t)
  then show ?thesis by (intro cadence_ok_cong [OF ok]) simp_all
next
  case (OtherDraws k)
  then show ?thesis by (intro cadence_ok_cong [OF ok]) simp_all
qed

lemma agent_step_species:
  "speciesData (fst (agent_step (c, w) e)) = speciesData c"
  by (cases e) (simp_all add: updateCreature_keeps damageCreature_cadence_fields)

lemma agent_run_cadence:
  "cadence_ok c w \<Longrightarrow>
   cadence_ok (fst (agent_run (c, w) evs)) (snd (agent_run (c, w) evs))
   \<and> speciesData (fst (agent_run (c, w) evs)) = speciesData c"
proof (induction evs arbitrary: c w)
  case Nil
  then show ?case by (simp add: agent_run_def)
next
  case (Cons e evs)
  let ?c1 = "fst (agent_step (c, w) e)" and ?w1 = "snd (agent_step (c, w) e)"
  have run: "agent_run (c, w) (e # evs) = agent_run (?c1, ?w1) evs"
    by (simp add: agent_run_def)
  from agent_step_cadence [OF Cons.prems, of e] have "cadence_ok ?c1 ?w1" .
  from Cons.IH [OF this] agent_step_species [of c w e] show ?case
    unfolding run by simp
qed

lemma exampleCreature_fields [simp]:
  "state (exampleCreature sp st x) = st"
  "stateTimer (exampleCreature sp st x) = 0"
  "speciesData (exampleCreature sp st x) = sp"
  "creature_position (exampleCreature sp st x) = \<lparr> jx = Num x, jy = Num 0, jz = Num 0 \<rparr>"
  "velocity (exampleCreature sp st x) = \<lparr> jx = Num 0, jy = Num 0, jz = Num 0 \<rparr>"
  "creature_health (exampleCreature sp st x) = species_health sp"
  "isDead (exampleCreature sp st x) = False"
  "target (exampleCreature sp st x) = None"
  "lastAttackTime (exampleCreature sp st x) = 0"
  by (simp_all add: exampleCreature_def spawnCreature_def mathRandom_def Let_def)

lemma flatWorld_fields [simp]:
  "player_position flatWorld = \<lparr> vx = 0, vy = 0, vz = 0 \<rparr>"
  "getHeightAt flatWorld = (\<lambda>x z. Num 0)"
  "dateNow flatWorld = 0"
  "randoms flatWorld = (\<lambda>k. 1 / 2)"
  "drawn flatWorld = 0"
  "inventoryPresent flatWorld = True"
  "groundItems flatWorld = []"
  "attackLog flatWorld = []"
  "fadeOuts flatWorld = []"
  by (simp_all add: flatWorld_def)

lemma jvec_origin [simp]:
  "jvec \<lparr> vx = a, vy = b, vz = c \<rparr> = \<lparr> jx = Num a, jy = Num b, jz = Num c \<rparr>"
  by (simp add: jvec_def)

text \<open>In the flat world every spawn succeeds and gives a deer.\<close>

lemma spawn_flat:
  assumes "getHeightAt (env s) = (\<lambda>x z. Num 0)" and "randoms (env s) = (\<lambda>k. 1 / 2)"
  shows "getHeightAt (env (spawnRandomCreature s)) = (\<lambda>x z. Num 0)"
    and "randoms (env (spawnRandomCreature s)) = (\<lambda>k. 1 / 2)"
    and "\<exists>c. creatures (spawnRandomCreature s) = creatures s @ [c]
            \<and> \<not> isDead c \<and> creature_health c = 25 \<and> speciesData c = deer"
proof -
  let ?w1 = "snd (mathRandom (env s))"
  let ?p = "\<lparr> jx = Num (- 60), jy = Num 0, jz = Num 0 \<rparr>"
  have s0: "spawnSample ?w1 0 = ?p"
    using assms by (simp add: spawnSample_def mathRandom_def spawnRadius_def Let_def)
  have "findSpawnPosition_loop (Suc 19) ?w1 = (Some ?p, ?w1\<lparr> drawn := drawn ?w1 + 2 \<rparr>)"
    unfolding findSpawnPosition_step s0 by (simp add: validLand_def)
  then have f: "findSpawnPosition ?w1 = (Some ?p, ?w1\<lparr> drawn := drawn ?w1 + 2 \<rparr>)"
    by (simp add: findSpawnPosition_def)
  have sel: "selectSpecies_loop (1 / 2 * totalWeight) initializeSpecies (initializeSpecies ! 0) = deer"
    by (simp add: totalWeight_def initializeSpecies_def rabbit_def deer_def wolf_def boar_def
        bear_def Let_def)
  have eq: "spawnRandomCreature s =
      \<lparr> creatures = creatures s @ [fst (spawnCreature deer ?p (?w1\<lparr> drawn := drawn ?w1 + 2 \<rparr>))],
        env = snd (spawnCreature deer ?p (?w1\<lparr> drawn := drawn ?w1 + 2 \<rparr>)) \<rparr>"
    using assms(2) f sel
    by (simp add: spawnRandomCreature_def mathRandom_def Let_def split: prod.splits)
  show "getHeightAt (env (spawnRandomCreature s)) = (\<lambda>x z. Num 0)"
    and "randoms (env (spawnRandomCreature s)) = (\<lambda>k. 1 / 2)"
    and "\<exists>c. creatures (spawnRandomCreature s) = creatures s @ [c]
            \<and> \<not> isDead c \<and> creature_health c = 25 \<and> speciesData c = deer"
    unfolding eq using assms
    by (simp_all add: spawnCreature_def mathRandom_def Let_def deer_def)
qed

lemma spawn_many_flat:
  "getHeightAt (env ((spawnRandomCreature ^^ n) \<lparr> creatures = [], env = flatWorld \<rparr>)) = (\<lambda>x z. Num 0)
   \<and> randoms (env ((spawnRandomCreature ^^ n) \<lparr> creatures = [], env = flatWorld \<rparr>)) = (\<lambda>k. 1 / 2)
   \<and> length (creatures ((spawnRandomCreature ^^ n) \<lparr> creatures = [], env = flatWorld \<rparr>)) = n
   \<and> (\<forall>c\<in>set (creatures ((spawnRandomCreature ^^ n) \<lparr> creatures = [], env = flatWorld \<rparr>)).
         \<not> isDead c \<and> creature_health c = 25)"
proof (induction n)
  case 0
  show ?case by simp
next
  case (Suc n)
  let ?s = "(spawnRandomCreature ^^ n) \<lparr> creatures = [], env = flatWorld \<rparr>"
  from Suc have h: "getHeightAt (env ?s) = (\<lambda>x z. Num 0)" and r: "randoms (env ?s) = (\<lambda>k. 1 / 2)"
    by simp_all
  from spawn_flat(3) [OF h r] obtain c where
    c: "creatures (spawnRandomCreature ?s) = creatures ?s @ [c]" "\<not> isDead c" "creature_health c = 25"
    by blast
  from spawn_flat(1,2) [OF h r] c Suc show ?case by simp
qed

lemma damageCreature_kills:
  "\<not> isDead c \<Longrightarrow> creature_health c - dmg \<le> 0 \<Longrightarrow>
   isDead (fst (damageCreature c dmg attacker w))"
  by (simp add: damageCreature_def killCreature_def Let_def)

text \<open>
  A chasing agent with a running state timer arises in one tick from a wandering wolf
  that sees the player.
\<close>

lemma chase_with_running_timer:
  "updateCreature ((exampleCreature wolf Wander 20)\<lparr> stateTimer := 26 \<rparr>) (16 / 1000) flatWorld
   = ((exampleCreature wolf Chase 20)\<lparr> stateTimer := 10, target := Some TargetPlayerPosition \<rparr>,
      flatWorld)"
  by (simp add: updateCreature_def updateTimer_def updateWander_def applyMovement_def
      multiplyScalar_def exampleCreature_def spawnCreature_def mathRandom_def wolf_def Let_def
      jdistanceTo_along_x)

lemma registry_ranges:
  "sp \<in> set initializeSpecies \<Longrightarrow> attackRange sp \<le> detectionRange sp * (15 / 10)"
  by (auto simp: initializeSpecies_def rabbit_def deer_def wolf_def boar_def bear_def)

text \<open>
  A boar that is hit flees, and its species has no \<open>fleeSpeed\<close>: after the next frame its
  position is NaN.
\<close>

lemma boar_flees_to_NaN:
  "jx (creature_position (fst (updateCreature
        (fst (damageCreature (exampleCreature boar Idle 3) 5 None flatWorld)) (1 / 60) flatWorld)))
   = NaN"
  by (simp add: damageCreature_def updateCreature_def updateTimer_def updateFlee_def
      applyMovement_def normalize_def subVectors_def vlength_def boar_def Let_def)

subsection \<open>Hitting a dead agent\<close>

text \<open>
  Claim C3. \<open>damageCreature\<close> on a dead agent, with any damage and any attacker, returns the
  agent and its surroundings as they were: health, state, state timer and target are
  unchanged, no random number is drawn for loot, no ground item is created and no second
  fade-out is started.
\<close>

theorem damageCreature_dead_noop:
  assumes "isDead c"
  shows "damageCreature c dmg attacker w = (c, w)"
  using assms by (simp add: damageCreature_def)

text \<open>A rabbit killed by a hit of 10 and hit again: the second call changes nothing.\<close>

theorem damageCreature_dead_noop_witness:
  "isDead (fst (damageCreature (exampleCreature rabbit Idle 3) 10 (Some 0) flatWorld))
   \<and> damageCreature (fst (damageCreature (exampleCreature rabbit Idle 3) 10 (Some 0) flatWorld))
        4 (Some 0) (snd (damageCreature (exampleCreature rabbit Idle 3) 10 (Some 0) flatWorld))
      = damageCreature (exampleCreature rabbit Idle 3) 10 (Some 0) flatWorld"
proof -
  have d: "isDead (fst (damageCreature (exampleCreature rabbit Idle 3) 10 (Some 0) flatWorld))"
    by (simp add: damageCreature_def killCreature_def rabbit_def Let_def)
  from d damageCreature_dead_noop [OF d, of 4 "Some 0"
      "snd (damageCreature (exampleCreature rabbit Idle 3) 10 (Some 0) flatWorld)"]
  show ?thesis by simp
qed

subsection \<open>The reaction to a hit\<close>




subsection \<open>Dead agents\<close>

text \<open>
  Claim C4. In every reachable state of the creature collection a dead agent has health 0;
  \<open>getClosestCreature\<close> returns only agents of the collection that are not dead; \<open>update\<close>
  leaves every dead agent exactly as it is; and the surroundings after \<open>update\<close> are those
  that the same call gives when the dead agents are taken out of the array beforehand.
\<close>

theorem dead_creatures_excluded:
  assumes "reachable_creatures s"
  shows "(\<forall>c\<in>set (creatures s). isDead c \<longrightarrow> creature_health c = 0)
       \<and> (\<forall>c. getClosestCreature s p maxDistance = Some c \<longrightarrow>
              c \<in> set (creatures s) \<and> \<not> isDead c)
       \<and> list_all2 (\<lambda>c c'. isDead c \<longrightarrow> c' = c) (creatures s) (creatures (update deltaTime s))
       \<and> env (update deltaTime s)
           = env (update deltaTime (s\<lparr> creatures := filter (\<lambda>c. \<not> isDead c) (creatures s) \<rparr>))"
proof -
  have a: "\<forall>c\<in>set (creatures s). isDead c \<longrightarrow> creature_health c = 0"
    using reachable_creatures_dead_ok [OF assms] by (simp add: dead_ok_def)
  have b: "c \<in> set (creatures s) \<and> \<not> isDead c" if "getClosestCreature s p maxDistance = Some c" for c
    using getClosestCreature_loop_live [of p "creatures s" None "Num maxDistance" c] that
    by (simp add: getClosestCreature_def)
  have c: "list_all2 (\<lambda>c c'. isDead c \<longrightarrow> c' = c) (creatures s) (creatures (update deltaTime s))"
    unfolding update_creatures
    using update_loop_result [of "creatures s" deltaTime "env s"]
    by (rule list_all2_mono) simp
  have d: "env (update deltaTime s)
           = env (update deltaTime (s\<lparr> creatures := filter (\<lambda>c. \<not> isDead c) (creatures s) \<rparr>))"
    using update_loop_skips_dead [of deltaTime "creatures s" "env s"]
    by (simp add: update_env)
  from a b c d show ?thesis by blast
qed

text \<open>
  The first of the fifteen deer of the flat world, killed by a hit of 25: its health is 0,
  a query at its own position does not return it, and a frame leaves it as it is.
\<close>

theorem dead_creatures_excluded_witness:
  "reachable_creatures (damageAt 0 25 None (newCreatureSystem flatWorld))
   \<and> creatures (damageAt 0 25 None (newCreatureSystem flatWorld)) ! 0
       \<in> set (creatures (damageAt 0 25 None (newCreatureSystem flatWorld)))
   \<and> isDead (creatures (damageAt 0 25 None (newCreatureSystem flatWorld)) ! 0)
   \<and> creature_health (creatures (damageAt 0 25 None (newCreatureSystem flatWorld)) ! 0) = 0
   \<and> getClosestCreature (damageAt 0 25 None (newCreatureSystem flatWorld))
        \<lparr> vx = - 60, vy = 0, vz = 0 \<rparr> 5
       \<noteq> Some (creatures (damageAt 0 25 None (newCreatureSystem flatWorld)) ! 0)
   \<and> creatures (update (1 / 60) (damageAt 0 25 None (newCreatureSystem flatWorld))) ! 0
       = creatures (damageAt 0 25 None (newCreatureSystem flatWorld)) ! 0"
proof -
  let ?n = "newCreatureSystem flatWorld"
  let ?s = "damageAt 0 25 None ?n"
  from spawn_many_flat [of maxCreatures]
  have len: "length (creatures ?n) = 15"
    and live: "\<forall>c\<in>set (creatures ?n). \<not> isDead c \<and> creature_health c = 25"
    by (simp_all add: newCreatureSystem_def maxCreatures_def)
  have i: "0 < length (creatures ?n)" using len by simp
  have r: "reachable_creatures ?s"
    by (rule reachable_creatures.hit [OF reachable_creatures.constructed i])
  have first: "creatures ?s ! 0 = fst (damageCreature (creatures ?n ! 0) 25 None (env ?n))"
    using i by (simp add: damageAt_def split: prod.splits)
  have "\<not> isDead (creatures ?n ! 0) \<and> creature_health (creatures ?n ! 0) = 25"
    using live i by (meson nth_mem)
  then have dead: "isDead (creatures ?s ! 0)"
    unfolding first by (intro damageCreature_kills) simp_all
  have i': "0 < length (creatures ?s)"
    using i by (simp add: damageAt_def split: prod.splits)
  then have mem: "creatures ?s ! 0 \<in> set (creatures ?s)"
    by (rule nth_mem)
  note excluded = dead_creatures_excluded [OF r, of "\<lparr> vx = - 60, vy = 0, vz = 0 \<rparr>" 5 "1 / 60"]
  from excluded have "list_all2 (\<lambda>c c'. isDead c \<longrightarrow> c' = c) (creatures ?s) (creatures (update (1 / 60) ?s))"
    by blast
  then have "isDead (creatures ?s ! 0) \<longrightarrow> creatures (update (1 / 60) ?s) ! 0 = creatures ?s ! 0"
    using i' by (rule list_all2_nthD)
  with dead have kept: "creatures (update (1 / 60) ?s) ! 0 = creatures ?s ! 0"
    by blast
  from excluded dead mem r kept show ?thesis by blast
qed

subsection \<open>The chase\<close>

text \<open>
  Claim C7, as stated, fails for a chasing agent whose state timer is still running from
  an earlier wander: \<open>updateCreature\<close> resets the state to idle when the timer runs out,
  before it looks at the distance. The wolf of \<open>chase_with_running_timer\<close>, with 10 ms left
  on its timer and the player now at distance 30, is idle after a tick of 16 ms, although
  30 lies between its attack range 2 and 37.5.
\<close>

theorem chase_tick_counterexample:
  "state ((exampleCreature wolf Chase 20)\<lparr> stateTimer := 10, target := Some TargetPlayerPosition \<rparr>)
     = Chase
   \<and> \<not> isDead ((exampleCreature wolf Chase 20)\<lparr> stateTimer := 10, target := Some TargetPlayerPosition \<rparr>)
   \<and> jdistanceTo
         (creature_position
            ((exampleCreature wolf Chase 20)\<lparr> stateTimer := 10, target := Some TargetPlayerPosition \<rparr>))
         (jvec (player_position (flatWorld\<lparr> player_position := \<lparr> vx = - 10, vy = 0, vz = 0 \<rparr> \<rparr>)))
       = Num 30
   \<and> attackRange wolf = 2 \<and> detectionRange wolf * (15 / 10) = 75 / 2
   \<and> state (fst (updateCreature
         ((exampleCreature wolf Chase 20)\<lparr> stateTimer := 10, target := Some TargetPlayerPosition \<rparr>)
         (16 / 1000) (flatWorld\<lparr> player_position := \<lparr> vx = - 10, vy = 0, vz = 0 \<rparr> \<rparr>))) = Idle"
  by (simp add: updateCreature_def updateTimer_def updateIdle_def mathRandom_def wolf_def Let_def
      jdistanceTo_along_x)

text \<open>
  Claim C7, amended. Let an agent be in chase, with no state timer running out in this
  tick, and let the attack range of its species be at most 1.5 times its detection range
  (as for every species of the registry, \<open>registry_ranges\<close>). Then one tick leaves the
  surroundings as they are and puts the agent in attack exactly when the distance to the
  player is below the attack range, in idle (with the target cleared) exactly when the
  distance is above 1.5 times the detection range, and otherwise leaves it in chase and
  moves it, in x and z, by \<open>deltaTime\<close> times the species speed times the component of the
  unit vector towards the player. The comparisons are those of the source, false for a
  distance that is NaN. Moreover an idle agent of an aggressive species with the player
  inside its detection range is in chase after one tick.
\<close>

theorem chase_tick:
  assumes chase: "state c = Chase"
    and timer: "\<not> (stateTimer c > 0 \<and> stateTimer c - deltaTime * 1000 \<le> 0)"
    and ranges: "attackRange (speciesData c) \<le> detectionRange (speciesData c) * (15 / 10)"
  shows "snd (updateCreature c deltaTime w) = w
       \<and> (state (fst (updateCreature c deltaTime w)) = Attack \<longleftrightarrow>
            jlt (jdistanceTo (creature_position c) (jvec (player_position w)))
                (Num (attackRange (speciesData c))))
       \<and> (state (fst (updateCreature c deltaTime w)) = Idle \<longleftrightarrow>
            jgt (jdistanceTo (creature_position c) (jvec (player_position w)))
                (Num (detectionRange (speciesData c) * (15 / 10))))
       \<and> (state (fst (updateCreature c deltaTime w)) = Idle \<longrightarrow>
            target (fst (updateCreature c deltaTime w)) = None)
       \<and> (\<not> jlt (jdistanceTo (creature_position c) (jvec (player_position w)))
                 (Num (attackRange (speciesData c)))
          \<and> \<not> jgt (jdistanceTo (creature_position c) (jvec (player_position w)))
                   (Num (detectionRange (speciesData c) * (15 / 10))) \<longrightarrow>
            state (fst (updateCreature c deltaTime w)) = Chase
            \<and> jx (creature_position (fst (updateCreature c deltaTime w)))
                = jadd (jx (creature_position c))
                    (jmul (jmul (jx (normalize (subVectors (jvec (player_position w))
                                                  (creature_position c))))
                                (Num (speed (speciesData c))))
                          (Num deltaTime))
            \<and> jz (creature_position (fst (updateCreature c deltaTime w)))
                = jadd (jz (creature_position c))
                    (jmul (jmul (jz (normalize (subVectors (jvec (player_position w))
                                                  (creature_position c))))
                                (Num (speed (speciesData c))))
                          (Num deltaTime)))
       \<and> (behavior (speciesData c0) = Aggressive \<and> state c0 = Idle
            \<and> jlt (jdistanceTo (creature_position c0) (jvec (player_position w)))
                   (Num (detectionRange (speciesData c0)))
          \<longrightarrow> state (fst (updateCreature c0 deltaTime w)) = Chase
              \<and> snd (updateCreature c0 deltaTime w) = w)"
proof -
  let ?c1 = "updateTimer c deltaTime"
  let ?d = "jdistanceTo (creature_position c) (jvec (player_position w))"
  let ?c2 = "fst (updateChase ?c1 ?d w)"
  let ?c' = "applyMovement ?c2 deltaTime w"
  have st: "state ?c1 = Chase" using chase timer by (simp add: updateTimer_keeps)
  have run: "updateCreature c deltaTime w = (?c', w)"
    using st by (rule updateCreature_in_chase)
  have a: "state ?c' = Attack \<longleftrightarrow> jlt ?d (Num (attackRange (speciesData c)))"
    using st by (simp add: updateChase_def Let_def)
  have i: "state ?c' = Idle \<longleftrightarrow> jgt ?d (Num (detectionRange (speciesData c) * (15 / 10)))"
    using st ranges jlt_below [of ?d "attackRange (speciesData c)"
        "detectionRange (speciesData c) * (15 / 10)"]
    by (auto simp: updateChase_def Let_def)
  have t: "state ?c' = Idle \<longrightarrow> target ?c' = None"
    using st by (simp add: updateChase_def Let_def)
  have m: "state ?c' = Chase
      \<and> jx (creature_position ?c') = jadd (jx (creature_position c))
           (jmul (jmul (jx (normalize (subVectors (jvec (player_position w)) (creature_position c))))
                       (Num (speed (speciesData c)))) (Num deltaTime))
      \<and> jz (creature_position ?c') = jadd (jz (creature_position c))
           (jmul (jmul (jz (normalize (subVectors (jvec (player_position w)) (creature_position c))))
                       (Num (speed (speciesData c)))) (Num deltaTime))"
    if "\<not> jlt ?d (Num (attackRange (speciesData c)))"
      and "\<not> jgt ?d (Num (detectionRange (speciesData c) * (15 / 10)))"
    using st that by (simp add: updateChase_def Let_def)
  have second: "state (fst (updateCreature c0 deltaTime w)) = Chase
              \<and> snd (updateCreature c0 deltaTime w) = w"
    if "behavior (speciesData c0) = Aggressive" and "state c0 = Idle"
      and "jlt (jdistanceTo (creature_position c0) (jvec (player_position w)))
               (Num (detectionRange (speciesData c0)))"
  proof -
    have "state (updateTimer c0 deltaTime) = Idle" using that(2) by (rule updateTimer_idle)
    from updateCreature_in_idle [OF this, of w] that(1,3) show ?thesis
      by (simp add: updateIdle_def)
  qed
  from a i t m second show ?thesis unfolding run fst_conv snd_conv by blast
qed

text \<open>
  The wolf: chasing at distance 40 it gives up, at distance 1 it attacks, at distance 10 it
  runs on towards the player; idle at distance 10 it starts the chase.
\<close>

theorem chase_tick_witness:
  "state (exampleCreature wolf Chase 40) = Chase
   \<and> state (fst (updateCreature (exampleCreature wolf Chase 40) (1 / 60) flatWorld)) = Idle
   \<and> target (fst (updateCreature (exampleCreature wolf Chase 40) (1 / 60) flatWorld)) = None
   \<and> state (fst (updateCreature (exampleCreature wolf Chase 1) (1 / 60) flatWorld)) = Attack
   \<and> state (fst (updateCreature (exampleCreature wolf Chase 10) (1 / 60) flatWorld)) = Chase
   \<and> jx (creature_position (fst (updateCreature (exampleCreature wolf Chase 10) (1 / 60) flatWorld)))
       = Num (10 - 12 / 60)
   \<and> state (fst (updateCreature (exampleCreature wolf Idle 10) (1 / 60) flatWorld)) = Chase"
proof -
  have n: "jx (normalize (subVectors \<lparr> jx = Num 0, jy = Num 0, jz = Num 0 \<rparr>
                                     \<lparr> jx = Num 10, jy = Num 0, jz = Num 0 \<rparr>)) = Num (- 1)"
    by (simp add: normalize_def subVectors_def vlength_def Let_def)
  have w: "attackRange wolf = 2" "detectionRange wolf = 25" "speed wolf = 12"
    "behavior wolf = Aggressive"
    by (simp_all add: wolf_def)
  have far: "state (fst (updateCreature (exampleCreature wolf Chase 40) (1 / 60) flatWorld)) = Idle
      \<and> target (fst (updateCreature (exampleCreature wolf Chase 40) (1 / 60) flatWorld)) = None"
    using chase_tick [of "exampleCreature wolf Chase 40" "1 / 60" flatWorld
        "exampleCreature wolf Idle 10"]
    by (simp add: w jdistanceTo_along_x)
  have near: "state (fst (updateCreature (exampleCreature wolf Chase 1) (1 / 60) flatWorld)) = Attack"
    using chase_tick [of "exampleCreature wolf Chase 1" "1 / 60" flatWorld
        "exampleCreature wolf Idle 10"]
    by (simp add: w jdistanceTo_along_x)
  have between: "state (fst (updateCreature (exampleCreature wolf Chase 10) (1 / 60) flatWorld)) = Chase
      \<and> jx (creature_position (fst (updateCreature (exampleCreature wolf Chase 10) (1 / 60) flatWorld)))
          = Num (10 - 12 / 60)"
    using chase_tick [of "exampleCreature wolf Chase 10" "1 / 60" flatWorld
        "exampleCreature wolf Idle 10"]
    by (simp add: w jdistanceTo_along_x n)
  have idle: "state (fst (updateCreature (exampleCreature wolf Idle 10) (1 / 60) flatWorld)) = Chase"
    using chase_tick [of "exampleCreature wolf Chase 10" "1 / 60" flatWorld
        "exampleCreature wolf Idle 10"]
    by (simp add: w jdistanceTo_along_x)
  from far near between idle show ?thesis by simp
qed

subsection \<open>The cadence of attacks\<close>

text \<open>
  Claim C8. Follow one agent from a moment with no recorded attack through any sequence of
  frames, hits, player movements, clock changes and foreign random draws. Then in the
  record of its \<open>performAttack\<close> calls each call comes more than \<open>attackCooldown\<close>
  milliseconds after the one before it, however close together the frames are; an agent
  whose species has no \<open>attackCooldown\<close> never attacks; and the agent's \<open>lastAttackTime\<close> is
  the time of its newest attack.
\<close>

theorem attack_cadence:
  assumes fresh: "attackLog w = []"
  shows "(\<forall>cd. attackCooldown (speciesData c) = Some cd \<longrightarrow>
            spaced cd (map fst (attackLog (snd (agent_run (c, w) evs)))))
       \<and> (attackCooldown (speciesData c) = None \<longrightarrow> attackLog (snd (agent_run (c, w) evs)) = [])
       \<and> (\<forall>t dmg rest. attackLog (snd (agent_run (c, w) evs)) = (t, dmg) # rest \<longrightarrow>
            lastAttackTime (fst (agent_run (c, w) evs)) = t)"
proof -
  have "cadence_ok c w" using fresh by (simp add: cadence_ok_def split: option.splits)
  from agent_run_cadence [OF this, of evs] show ?thesis
    by (auto simp: cadence_ok_def split: option.splits list.splits)
qed

text \<open>
  A wolf next to the player, with frames at 2000, 2500 and 3600 ms: it attacks at 2000 and
  at 3600, not at 2500.
\<close>

theorem attack_cadence_witness:
  "attackLog flatWorld = []
   \<and> map fst (attackLog (snd (agent_run (exampleCreature wolf Attack 1, flatWorld)
           [ClockAt 2000, AgentTick (1 / 60), ClockAt 2500, AgentTick (1 / 60),
            ClockAt 3600, AgentTick (1 / 60)])))
       = [3600, 2000]
   \<and> spaced 1500 [3600, 2000]"
proof -
  let ?evs = "[ClockAt 2000, AgentTick (1 / 60), ClockAt 2500, AgentTick (1 / 60),
            ClockAt 3600, AgentTick (1 / 60)]"
  have fresh: "attackLog flatWorld = []" by simp
  have log: "map fst (attackLog (snd (agent_run (exampleCreature wolf Attack 1, flatWorld) ?evs)))
               = [3600, 2000]"
    by (simp add: agent_run_def updateCreature_def updateTimer_def updateAttack_def
        performAttack_def applyMovement_def multiplyScalar_def wolf_def Let_def
        jdistanceTo_along_x)
  have cd: "attackCooldown (speciesData (exampleCreature wolf Attack 1)) = Some 1500"
    by (simp add: wolf_def)
  have "\<forall>cd. attackCooldown (speciesData (exampleCreature wolf Attack 1)) = Some cd \<longrightarrow>
          spaced cd (map fst (attackLog (snd (agent_run (exampleCreature wolf Attack 1, flatWorld) ?evs))))"
    using attack_cadence [OF fresh, of "exampleCreature wolf Attack 1" ?evs] by (rule conjunct1)
  with cd have "spaced 1500 (map fst (attackLog (snd (agent_run (exampleCreature wolf Attack 1, flatWorld) ?evs))))"
    by blast
  then have "spaced 1500 [3600, 2000]" by (simp only: log)
  with fresh log show ?thesis by blast
qed

subsection \<open>Spawn positions\<close>

text \<open>
  What the search of \<open>findSpawnPosition\<close> does, with random draws in \<open>[0, 1)\<close>: a position it
  returns has three coordinates that are numbers; in the horizontal plane it lies at a
  distance from the centre of at least 20 and less than \<open>20 + spawnRadius\<close>, and its height
  is the terrain height there, above \<open>-1\<close> and below 15. The search returns nothing exactly
  when all of its 20 sampled points have a height outside that band, and then
  \<open>spawnRandomCreature\<close> leaves the creature array as it is.
\<close>

lemma findSpawnPosition_samples:
  assumes rnd: "\<forall>k. 0 \<le> randoms w k \<and> randoms w k < 1"
  shows "(\<forall>p. fst (findSpawnPosition w) = Some p \<longrightarrow>
            (\<exists>x h z. p = \<lparr> jx = Num x, jy = Num h, jz = Num z \<rparr>
               \<and> 20 \<le> sqrt (x * x + z * z)
               \<and> sqrt (x * x + z * z) < 20 + spawnRadius
               \<and> - 1 < h \<and> h < 15
               \<and> getHeightAt w (Num x) (Num z) = Num h))
       \<and> (fst (findSpawnPosition w) = None \<longleftrightarrow> (\<forall>k<20. \<not> validLand (jy (spawnSample w k))))
       \<and> (fst (findSpawnPosition (snd (mathRandom (env s)))) = None \<longrightarrow>
            creatures (spawnRandomCreature s) = creatures s)"
proof -
  have some: "\<exists>x h z. p = \<lparr> jx = Num x, jy = Num h, jz = Num z \<rparr>
               \<and> 20 \<le> sqrt (x * x + z * z)
               \<and> sqrt (x * x + z * z) < 20 + spawnRadius
               \<and> - 1 < h \<and> h < 15
               \<and> getHeightAt w (Num x) (Num z) = Num h"
    if "fst (findSpawnPosition w) = Some p" for p
  proof -
    from that findSpawnPosition_loop_spec [of 20 w]
    obtain k where k: "p = spawnSample w k" "validLand (jy p)"
      unfolding findSpawnPosition_def by blast
    from rnd have "0 \<le> randoms w (drawn w + 2 * k + 1)" "randoms w (drawn w + 2 * k + 1) < 1"
      by simp_all
    from spawnSample_annulus [OF this] k(1) obtain x z where
      xz: "jx p = Num x" "jz p = Num z" "jy p = getHeightAt w (Num x) (Num z)"
        "20 \<le> sqrt (x * x + z * z)" "sqrt (x * x + z * z) < 20 + spawnRadius"
      by blast
    from k(2) obtain h where h: "jy p = Num h" "- 1 < h" "h < 15"
      by (auto simp: validLand_Num)
    have p: "p = \<lparr> jx = Num x, jy = Num h, jz = Num z \<rparr>"
      using xz(1,2) h(1) by (cases p) simp
    have "getHeightAt w (Num x) (Num z) = Num h" using xz(3) h(1) by simp
    with p xz(4,5) h(2,3) show ?thesis by blast
  qed
  have none: "fst (findSpawnPosition w) = None \<longleftrightarrow> (\<forall>k<20. \<not> validLand (jy (spawnSample w k)))"
    using findSpawnPosition_loop_spec [of 20 w] unfolding findSpawnPosition_def by blast
  have abandon: "creatures (spawnRandomCreature s) = creatures s"
    if "fst (findSpawnPosition (snd (mathRandom (env s)))) = None"
    using that by (auto simp: spawnRandomCreature_def Let_def split: prod.splits)
  from some none abandon show ?thesis by blast
qed

text \<open>
  Claim C9 puts every spawn position in the annulus around the centre with inner radius 20
  and outer radius \<open>spawnRadius\<close>, and the source agrees on what \<open>spawnRadius\<close> is: the
  constructor sets \<open>this.spawnRadius = 80\<close> with the comment \<open>Distance from center to spawn\<close>.
  But \<open>findSpawnPosition\<close> draws the distance as \<open>20 + Math.random() * this.spawnRadius\<close>,
  so the inner radius is added to a draw from the whole of \<open>spawnRadius\<close> and the distances
  reach up to 100. On flat terrain, with the draw 0 for the angle and \<open>9/10\<close> for the
  distance, the search returns the position \<open>(92, 0, 0)\<close>, at distance 92 from the centre,
  beyond \<open>spawnRadius = 80\<close>.
\<close>

theorem findSpawnPosition_beyond_spawnRadius:
  "fst (findSpawnPosition farSpawnWorld) = Some \<lparr> jx = Num 92, jy = Num 0, jz = Num 0 \<rparr>
   \<and> getHeightAt farSpawnWorld (Num 92) (Num 0) = Num 0
   \<and> spawnRadius < sqrt (92 * 92 + 0 * 0)"
proof -
  have "fst (findSpawnPosition_loop (Suc 19) farSpawnWorld)
          = Some \<lparr> jx = Num 92, jy = Num 0, jz = Num 0 \<rparr>"
    unfolding findSpawnPosition_step
    by (simp add: spawnSample_def validLand_def farSpawnWorld_def flatWorld_def spawnRadius_def
        Let_def)
  then have "fst (findSpawnPosition farSpawnWorld) = Some \<lparr> jx = Num 92, jy = Num 0, jz = Num 0 \<rparr>"
    by (simp add: findSpawnPosition_def)
  moreover have "getHeightAt farSpawnWorld (Num 92) (Num 0) = Num 0"
    by (simp add: farSpawnWorld_def flatWorld_def)
  moreover have "sqrt (92 * 92 + 0 * 0) = (92::real)" by simp
  ultimately show ?thesis by (simp add: spawnRadius_def)
qed

end
